theory Spec2Isabelle
  imports Main
begin

section \<open>Data model of WebchatUI.tsx\<close>

text \<open>
  The component \<^verbatim>\<open>WebchatUI\<close> is a React class component. Its lifecycle methods are
  embedded as functions on an explicit component record; a JavaScript exception is the
  value \<open>Inl TypeError\<close>. An optional value of the source (a field that may be
  \<^verbatim>\<open>undefined\<close>) is an \<open>option\<close>.
\<close>

datatype error = TypeError

text \<open>\<^verbatim>\<open>TTyping\<close>: the source compares the prop with \<^verbatim>\<open>'remove'\<close> and \<^verbatim>\<open>'hide'\<close>.\<close>

datatype typing = TypingShow | TypingHide | TypingRemove

text \<open>
  A JavaScript array is compared by reference in \<^verbatim>\<open>componentDidUpdate\<close>
  (\<^verbatim>\<open>prevProps.unseenMessages !== this.props.unseenMessages\<close>), so an array carries
  its identity beside its elements.
\<close>

record 'a js_array =
  ident :: nat
  elems :: "'a list"

text \<open>
  \<^verbatim>\<open>IWebchatConfig\<close> is declared outside this file. Every setting the component reads
  is a field that may be absent, and so is the settings block itself:
  \<^verbatim>\<open>getDerivedStateFromProps\<close> tests \<^verbatim>\<open>props.config && props.config.settings\<close> before
  reading it.
\<close>

record settings =
  colorScheme :: "string option"
  title :: "string option"
  headerLogoUrl :: "string option"
  disableBranding :: "bool option"
  disableToggleButton :: "bool option"
  enableConnectionStatusIndicator :: "bool option"
  enableUnreadMessageTitleIndicator :: "bool option"
  enableUnreadMessagePreview :: "bool option"
  enableUnreadMessageSound :: "bool option"
  enableUnreadMessageBadge :: "bool option"
  unreadMessageTitleText :: "string option"

record config =
  active :: bool
  settings :: "settings option"

text \<open>
  Plugins are opaque capability bundles. A plugin is either one supplied by the host
  (identified by a number) or the built-in default that the component imports.
\<close>

datatype messagePlugin = HostMessagePlugin nat | regularMessagePlugin

datatype inputPlugin = HostInputPlugin nat | textInputPlugin

text \<open>
  \<^verbatim>\<open>WebchatUIProps\<close>, without the callbacks (they are passed on and never called by
  the lifecycle methods). \<^verbatim>\<open>inputPlugins\<close> is declared as required, but
  \<^verbatim>\<open>componentDidMount\<close> reads it as \<^verbatim>\<open>this.props.inputPlugins || []\<close>.
  The prop \<^verbatim>\<open>open\<close> is the field \<open>isOpen\<close>, since \<open>open\<close> is a keyword.
\<close>

record 'm props =
  messages :: "'m list"
  unseenMessages :: "'m js_array"
  fullscreenMessage :: "'m option"
  config :: config
  typingIndicator :: typing
  isOpen :: bool
  messagePlugins :: "messagePlugin list option"
  inputPlugins :: "inputPlugin list option"
  inputMode :: string
  connected :: bool
  reconnectionLimit :: bool

text \<open>
  Modelled from the spec: the theme token generation function \<^verbatim>\<open>createWebchatTheme\<close>
  is an external collaborator. A theme is represented by the primary colour it was
  created from (\<open>None\<close> for the library's default).
\<close>

record theme =
  primaryColor :: "string option"

definition createWebchatTheme :: "string option \<Rightarrow> theme" where
  "createWebchatTheme c = \<lparr>primaryColor = c\<rparr>"

text \<open>\<^verbatim>\<open>WebchatUIState\<close>; the two plugin fields carry a suffix to tell them from the props.\<close>

record state =
  theme :: theme
  messagePlugins_st :: "messagePlugin list"
  inputPlugins_st :: "inputPlugin list"
  hadConnection :: bool
  lastUnseenMessageText :: string

datatype titleType = original | unread

text \<open>
  The handle returned by \<^verbatim>\<open>setInterval\<close>: a positive number in a browser, an object
  elsewhere, truthy in both cases.
\<close>

datatype timer = Timer nat

text \<open>
  The component instance (\<^verbatim>\<open>this\<close>) together with the part of the browser it
  touches: the document title, the live interval timers whose callback is
  \<^verbatim>\<open>this.toggleTitleIndicator\<close>, the next timer handle, and the number of times the
  notification sound was played.
\<close>

record 'm component =
  props :: "'m props"
  state :: state
  unreadTitleIndicatorInterval :: "timer option"
  originalTitle :: string
  titleType :: titleType
  document_title :: string
  intervals :: "timer list"
  next_timer :: nat
  sounds_played :: nat

section \<open>JavaScript helpers\<close>

definition truthy :: "bool option \<Rightarrow> bool" where
  "truthy b = (b = Some True)"

definition truthy_string :: "string option \<Rightarrow> bool" where
  "truthy_string s = (case s of None \<Rightarrow> False | Some t \<Rightarrow> t \<noteq> [])"

text \<open>A number in a template literal is printed in decimal.\<close>

definition digit_char :: "nat \<Rightarrow> char" where
  "digit_char d = ''0123456789'' ! d"

fun string_of_nat :: "nat \<Rightarrow> string" where
  "string_of_nat n =
     (if n < 10 then [digit_char n] else string_of_nat (n div 10) @ [digit_char (n mod 10)])"

declare string_of_nat.simps [simp del]

text \<open>A template literal prints an absent value as \<^verbatim>\<open>undefined\<close>.\<close>

definition template_string :: "string option \<Rightarrow> string" where
  "template_string s = (case s of None \<Rightarrow> ''undefined'' | Some t \<Rightarrow> t)"

definition setInterval :: "'m component \<Rightarrow> timer \<times> 'm component" where
  "setInterval c =
     (Timer (next_timer c),
      c\<lparr>intervals := intervals c @ [Timer (next_timer c)], next_timer := Suc (next_timer c)\<rparr>)"

definition clearInterval :: "timer \<Rightarrow> 'm component \<Rightarrow> 'm component" where
  "clearInterval t c = c\<lparr>intervals := removeAll t (intervals c)\<rparr>"

section \<open>The component\<close>

definition initial_state :: state where
  "initial_state =
     \<lparr>theme = createWebchatTheme None, messagePlugins_st = [], inputPlugins_st = [],
      hadConnection = False, lastUnseenMessageText = []\<rparr>"

text \<open>The constructor and the field initialisers; \<open>doc\<close> is the document title then.\<close>

definition construct :: "'m props \<Rightarrow> string \<Rightarrow> 'm component" where
  "construct p doc =
     \<lparr>props = p, state = initial_state, unreadTitleIndicatorInterval = None,
      originalTitle = doc, titleType = original, document_title = doc,
      intervals = [], next_timer = 1, sounds_played = 0\<rparr>"

definition getDerivedStateFromProps :: "'m props \<Rightarrow> state \<Rightarrow> state option" where
  "getDerivedStateFromProps p s =
     (let color = (case settings (config p) of None \<Rightarrow> None | Some st \<Rightarrow> colorScheme st)
      in if truthy_string color \<and> color \<noteq> primaryColor (theme s)
         then Some (s\<lparr>theme := createWebchatTheme color\<rparr>)
         else None)"

definition initializeTitleIndicator :: "'m component \<Rightarrow> 'm component" where
  "initializeTitleIndicator c =
     (case unreadTitleIndicatorInterval c of
        Some t \<Rightarrow> c
      | None \<Rightarrow> (let (t, c') = setInterval c in c'\<lparr>unreadTitleIndicatorInterval := Some t\<rparr>))"

definition componentDidMount :: "'m component \<Rightarrow> error + 'm component" where
  "componentDidMount c =
     (let c1 = c\<lparr>state := (state c)
                 \<lparr>inputPlugins_st :=
                    (case inputPlugins (props c) of None \<Rightarrow> [] | Some xs \<Rightarrow> xs) @ [textInputPlugin],
                  messagePlugins_st :=
                    (case messagePlugins (props c) of None \<Rightarrow> [] | Some xs \<Rightarrow> xs) @ [regularMessagePlugin]\<rparr>\<rparr>
      in case settings (config (props c)) of
           None \<Rightarrow> Inl TypeError
         | Some st \<Rightarrow>
             Inr (if truthy (enableUnreadMessageTitleIndicator st)
                  then initializeTitleIndicator c1 else c1))"

text \<open>
  \<^verbatim>\<open>componentDidUpdate\<close> is four statements in a row, each a conditional on the
  component; they are embedded one by one, in the source's order. The first:
  \<^verbatim>\<open>if (settings.colorScheme !== prevProps.config.settings.colorScheme) setState({theme})\<close>.
\<close>

definition recompute_theme :: "settings \<Rightarrow> settings \<Rightarrow> 'm component \<Rightarrow> 'm component" where
  "recompute_theme st pst c =
     (if colorScheme st \<noteq> colorScheme pst
      then c\<lparr>state := (state c)\<lparr>theme := createWebchatTheme (colorScheme st)\<rparr>\<rparr>
      else c)"

text \<open>\<^verbatim>\<open>if (!prevState.hadConnection && this.props.connected) setState({hadConnection: true})\<close>\<close>

definition latch_connection :: "state \<Rightarrow> 'm component \<Rightarrow> 'm component" where
  "latch_connection prevState c =
     (if \<not> hadConnection prevState \<and> connected (props c)
      then c\<lparr>state := (state c)\<lparr>hadConnection := True\<rparr>\<rparr>
      else c)"

text \<open>
  Inside \<^verbatim>\<open>if (prevProps.unseenMessages !== this.props.unseenMessages)\<close>: the preview
  text, then the notification sound.
\<close>

definition preview_text :: "('m \<Rightarrow> string) \<Rightarrow> settings \<Rightarrow> 'm component \<Rightarrow> 'm component" where
  "preview_text getTextFromMessage st c =
     (if truthy (enableUnreadMessagePreview st)
      then c\<lparr>state := (state c)
             \<lparr>lastUnseenMessageText :=
                (if length (elems (unseenMessages (props c))) > 0
                 then getTextFromMessage (last (elems (unseenMessages (props c))))
                 else [])\<rparr>\<rparr>
      else c)"

definition play_sound :: "settings \<Rightarrow> 'm component \<Rightarrow> 'm component" where
  "play_sound st c =
     (if length (elems (unseenMessages (props c))) > 0 \<and> truthy (enableUnreadMessageSound st)
      then c\<lparr>sounds_played := Suc (sounds_played c)\<rparr>
      else c)"

definition unseen_changed ::
  "('m \<Rightarrow> string) \<Rightarrow> 'm props \<Rightarrow> settings \<Rightarrow> 'm component \<Rightarrow> 'm component" where
  "unseen_changed getTextFromMessage prevProps st c =
     (if ident (unseenMessages prevProps) \<noteq> ident (unseenMessages (props c))
      then play_sound st (preview_text getTextFromMessage st c)
      else c)"

text \<open>
  \<^verbatim>\<open>if (settings.enableUnreadMessageTitleIndicator && settings.enableUnreadMessageTitleIndicator
  !== prevProps.config.settings.enableUnreadMessageTitleIndicator) this.initializeTitleIndicator()\<close>
\<close>

definition start_indicator :: "settings \<Rightarrow> settings \<Rightarrow> 'm component \<Rightarrow> 'm component" where
  "start_indicator st pst c =
     (if truthy (enableUnreadMessageTitleIndicator st)
         \<and> enableUnreadMessageTitleIndicator st \<noteq> enableUnreadMessageTitleIndicator pst
      then initializeTitleIndicator c
      else c)"

text \<open>
  The first statement reads \<^verbatim>\<open>this.props.config.settings.colorScheme\<close> and
  \<^verbatim>\<open>prevProps.config.settings.colorScheme\<close>: with either settings block absent it
  throws before anything is changed. \<^verbatim>\<open>getTextFromMessage\<close> is imported from
  outside this file and is a parameter.
\<close>

definition componentDidUpdate ::
  "('m \<Rightarrow> string) \<Rightarrow> 'm props \<Rightarrow> state \<Rightarrow> 'm component \<Rightarrow> error + 'm component" where
  "componentDidUpdate getTextFromMessage prevProps prevState c =
     (case settings (config (props c)) of
        None \<Rightarrow> Inl TypeError
      | Some st \<Rightarrow>
         (case settings (config prevProps) of
            None \<Rightarrow> Inl TypeError
          | Some pst \<Rightarrow>
              Inr (start_indicator st pst
                    (unseen_changed getTextFromMessage prevProps st
                      (latch_connection prevState
                        (recompute_theme st pst c))))))"

definition componentWillUnmount :: "'m component \<Rightarrow> 'm component" where
  "componentWillUnmount c =
     (case unreadTitleIndicatorInterval c of
        Some t \<Rightarrow> (clearInterval t c)\<lparr>unreadTitleIndicatorInterval := None\<rparr>
      | None \<Rightarrow> c)"

definition toggleTitleIndicator :: "'m component \<Rightarrow> error + 'm component" where
  "toggleTitleIndicator c =
     (if titleType c = unread
      then Inr (c\<lparr>document_title := originalTitle c, titleType := original\<rparr>)
      else if length (elems (unseenMessages (props c))) > 0
      then (case settings (config (props c)) of
              None \<Rightarrow> Inl TypeError
            | Some st \<Rightarrow>
                Inr (c\<lparr>document_title :=
                         ''('' @ string_of_nat (length (elems (unseenMessages (props c))))
                           @ '') '' @ template_string (unreadMessageTitleText st),
                       titleType := unread\<rparr>))
      else Inr c)"

section \<open>Rendering\<close>

text \<open>
  The element tree that \<^verbatim>\<open>render\<close> returns, reduced to the parts the component
  decides: which elements are present and what they are given.
\<close>

record header_view =
  header_connected :: bool
  logoUrl :: "string option"
  header_title :: string

record 'm history_view =
  history_disableBranding :: "bool option"
  rows :: "('m \<times> messagePlugin list) list"
  typingIndicatorRow :: "bool option"

record 'm input_view =
  input_plugins :: "inputPlugin list"
  input_messages :: "'m list"
  input_inputMode :: string

datatype 'm layout =
    RegularLayout header_view "'m history_view" "'m input_view"
  | FullscreenMessageLayout "'m option" "messagePlugin list"

record overlay_view =
  isPermanent :: bool

datatype icon = CloseIcon | ChatIcon

record toggle_view =
  messageTeaser :: "string option"
  fab_icon :: icon
  badge :: "nat option"

record 'm root_view =
  layout :: "'m layout"
  disconnectOverlay :: "overlay_view option"

record 'm view =
  view_theme :: theme
  webchatRoot :: "'m root_view option"
  toggle :: "toggle_view option"

definition renderInput :: "'m component \<Rightarrow> 'm input_view" where
  "renderInput c =
     \<lparr>input_plugins = inputPlugins_st (state c), input_messages = messages (props c),
      input_inputMode = inputMode (props c)\<rparr>"

text \<open>The typing indicator row is present unless the prop is \<^verbatim>\<open>'remove'\<close>; its value is \<^verbatim>\<open>hidden\<close>.\<close>

definition renderHistory ::
  "'m component \<Rightarrow> ('m \<times> messagePlugin list) list \<times> bool option" where
  "renderHistory c =
     (map (\<lambda>message. (message, messagePlugins_st (state c))) (messages (props c)),
      if typingIndicator (props c) \<noteq> TypingRemove
      then Some (typingIndicator (props c) = TypingHide) else None)"

definition renderRegularLayout :: "'m component \<Rightarrow> error + 'm layout" where
  "renderRegularLayout c =
     (case settings (config (props c)) of
        None \<Rightarrow> Inl TypeError
      | Some st \<Rightarrow>
          Inr (RegularLayout
                 \<lparr>header_connected = active (config (props c)),
                  logoUrl = headerLogoUrl st,
                  header_title =
                    (if truthy_string (title st) then template_string (title st)
                     else ''Cognigy Webchat'')\<rparr>
                 \<lparr>history_disableBranding = disableBranding st,
                  rows = fst (renderHistory c),
                  typingIndicatorRow = snd (renderHistory c)\<rparr>
                 (renderInput c)))"

definition renderFullscreenMessageLayout :: "'m component \<Rightarrow> 'm layout" where
  "renderFullscreenMessageLayout c =
     FullscreenMessageLayout (fullscreenMessage (props c)) (messagePlugins_st (state c))"

definition render :: "'m component \<Rightarrow> error + 'm view option" where
  "render c =
     (case settings (config (props c)) of
        None \<Rightarrow> Inl TypeError
      | Some st \<Rightarrow>
          if \<not> active (config (props c)) then Inr None
          else
            (let showDisconnectOverlay =
                   (truthy (enableConnectionStatusIndicator st) \<and> \<not> connected (props c)
                    \<and> hadConnection (state c));
                 toggleArea =
                   (if \<not> truthy (disableToggleButton st)
                    then Some
                      \<lparr>messageTeaser =
                         (if lastUnseenMessageText (state c) \<noteq> []
                          then Some (lastUnseenMessageText (state c)) else None),
                       fab_icon = (if isOpen (props c) then CloseIcon else ChatIcon),
                       badge =
                         (if truthy (enableUnreadMessageBadge st)
                          then Some (length (elems (unseenMessages (props c))))
                          else None)\<rparr>
                    else None)
             in if isOpen (props c)
                then
                  (case (if fullscreenMessage (props c) = None
                         then renderRegularLayout c
                         else Inr (renderFullscreenMessageLayout c)) of
                     Inl e \<Rightarrow> Inl e
                   | Inr l \<Rightarrow>
                       Inr (Some
                         \<lparr>view_theme = theme (state c),
                          webchatRoot =
                            Some
                              \<lparr>layout = l,
                               disconnectOverlay =
                                 (if showDisconnectOverlay
                                  then Some \<lparr>isPermanent = reconnectionLimit (props c)\<rparr>
                                  else None)\<rparr>,
                          toggle = toggleArea\<rparr>))
                else
                  Inr (Some
                    \<lparr>view_theme = theme (state c), webchatRoot = None,
                     toggle = toggleArea\<rparr>)))"

section \<open>The lifecycle as React drives it\<close>

text \<open>
  React calls \<^verbatim>\<open>getDerivedStateFromProps\<close> before every render and merges what it
  returns; \<^verbatim>\<open>null\<close> leaves the state as it is.
\<close>

definition derive_state :: "'m props \<Rightarrow> state \<Rightarrow> state" where
  "derive_state p s = (case getDerivedStateFromProps p s of None \<Rightarrow> s | Some s' \<Rightarrow> s')"

text \<open>
  The first part of mounting: constructor, \<^verbatim>\<open>getDerivedStateFromProps\<close>,
  \<^verbatim>\<open>render\<close>, \<^verbatim>\<open>componentDidMount\<close>. An exception in any of them ends the
  component.
\<close>

definition did_mount :: "'m props \<Rightarrow> string \<Rightarrow> error + 'm component" where
  "did_mount p doc =
     (let c = construct p doc;
          c' = c\<lparr>state := derive_state p (state c)\<rparr>
      in case render c' of
           Inl e \<Rightarrow> Inl e
         | Inr v \<Rightarrow> componentDidMount c')"

text \<open>
  \<^verbatim>\<open>componentDidMount\<close> calls \<^verbatim>\<open>setState\<close> with two fresh arrays, so the state
  always changes and React renders again and calls \<^verbatim>\<open>componentDidUpdate\<close>, with the
  same props as previous props and with the state from before the \<^verbatim>\<open>setState\<close> as
  previous state. Mounting is complete after this forced update, the first update of
  the component.
\<close>

definition mount :: "('m \<Rightarrow> string) \<Rightarrow> 'm props \<Rightarrow> string \<Rightarrow> error + 'm component" where
  "mount getTextFromMessage p doc =
     (case did_mount p doc of
        Inl e \<Rightarrow> Inl e
      | Inr c1 \<Rightarrow>
          (let prevProps = p;
               prevState = derive_state p initial_state;
               c2 = c1\<lparr>state := derive_state p (state c1)\<rparr>
           in case render c2 of
                Inl e \<Rightarrow> Inl e
              | Inr v \<Rightarrow> componentDidUpdate getTextFromMessage prevProps prevState c2))"

text \<open>
  An update with the props \<open>p\<close>: \<^verbatim>\<open>getDerivedStateFromProps\<close>, \<^verbatim>\<open>render\<close>, then
  \<^verbatim>\<open>componentDidUpdate\<close> with the props and the state from before the update. A
  re-render that a \<^verbatim>\<open>setState\<close> call of \<^verbatim>\<open>componentDidUpdate\<close> causes is an update
  with the props unchanged, and changes nothing whatever the previous state
  (\<open>rerender_stable\<close> below).
\<close>

definition update ::
  "('m \<Rightarrow> string) \<Rightarrow> 'm props \<Rightarrow> 'm component \<Rightarrow> error + 'm component" where
  "update getTextFromMessage p c =
     (let prevProps = props c;
          prevState = state c;
          c' = c\<lparr>props := p, state := derive_state p (state c)\<rparr>
      in case render c' of
           Inl e \<Rightarrow> Inl e
         | Inr v \<Rightarrow> componentDidUpdate getTextFromMessage prevProps prevState c')"

text \<open>
  One period of the interval clock: every live timer calls \<^verbatim>\<open>toggleTitleIndicator\<close>.
  An exception in a timer callback is reported by the browser and changes nothing.
\<close>

definition fire :: "'m component \<Rightarrow> 'm component" where
  "fire c = (case toggleTitleIndicator c of Inl e \<Rightarrow> c | Inr c' \<Rightarrow> c')"

definition tick :: "'m component \<Rightarrow> 'm component" where
  "tick c = fold (\<lambda>t. fire) (intervals c) c"

datatype 'm event = Update "'m props" | Tick

fun step :: "('m \<Rightarrow> string) \<Rightarrow> 'm event \<Rightarrow> 'm component \<Rightarrow> error + 'm component" where
  "step g (Update p) c = update g p c"
| "step g Tick c = Inr (tick c)"

fun run :: "('m \<Rightarrow> string) \<Rightarrow> 'm event list \<Rightarrow> 'm component \<Rightarrow> error + 'm component" where
  "run g [] c = Inr c"
| "run g (e # es) c = (case step g e c of Inl x \<Rightarrow> Inl x | Inr c' \<Rightarrow> run g es c')"

text \<open>The life of a component up to some moment: mounted, then a sequence of events.\<close>

definition lifetime ::
  "('m \<Rightarrow> string) \<Rightarrow> 'm props \<Rightarrow> string \<Rightarrow> 'm event list \<Rightarrow> error + 'm component" where
  "lifetime g p doc es = (case mount g p doc of Inl x \<Rightarrow> Inl x | Inr c \<Rightarrow> run g es c)"

text \<open>The clock running on after \<^verbatim>\<open>componentWillUnmount\<close>.\<close>

fun ticks :: "nat \<Rightarrow> 'm component \<Rightarrow> 'm component" where
  "ticks 0 c = c"
| "ticks (Suc n) c = ticks n (tick c)"

section \<open>What a render shows\<close>

definition overlay_rendered :: "error + 'm view option \<Rightarrow> bool" where
  "overlay_rendered r =
     (case r of
        Inr (Some v) \<Rightarrow>
          (case webchatRoot v of Some w \<Rightarrow> disconnectOverlay w \<noteq> None | None \<Rightarrow> False)
      | _ \<Rightarrow> False)"

definition teaser_rendered :: "error + 'm view option \<Rightarrow> bool" where
  "teaser_rendered r =
     (case r of
        Inr (Some v) \<Rightarrow>
          (case toggle v of Some t \<Rightarrow> messageTeaser t \<noteq> None | None \<Rightarrow> False)
      | _ \<Rightarrow> False)"

definition regular_parts ::
  "'m layout \<Rightarrow> (header_view \<times> 'm history_view \<times> 'm input_view) option" where
  "regular_parts l =
     (case l of RegularLayout h hi i \<Rightarrow> Some (h, hi, i) | FullscreenMessageLayout m ps \<Rightarrow> None)"

definition fullscreen_part :: "'m layout \<Rightarrow> ('m option \<times> messagePlugin list) option" where
  "fullscreen_part l =
     (case l of RegularLayout h hi i \<Rightarrow> None | FullscreenMessageLayout m ps \<Rightarrow> Some (m, ps))"

section \<open>Example inputs\<close>

definition no_settings :: settings where
  "no_settings =
     \<lparr>colorScheme = None, title = None, headerLogoUrl = None, disableBranding = None,
      disableToggleButton = None, enableConnectionStatusIndicator = None,
      enableUnreadMessageTitleIndicator = None, enableUnreadMessagePreview = None,
      enableUnreadMessageSound = None, enableUnreadMessageBadge = None,
      unreadMessageTitleText = None\<rparr>"

definition all_settings :: settings where
  "all_settings =
     no_settings
       \<lparr>enableConnectionStatusIndicator := Some True,
        enableUnreadMessageTitleIndicator := Some True,
        enableUnreadMessagePreview := Some True,
        enableUnreadMessageSound := Some True,
        enableUnreadMessageBadge := Some True,
        unreadMessageTitleText := Some ''New message''\<rparr>"

text \<open>A closed, disconnected, active widget with nothing unseen; messages are strings.\<close>

definition example_props :: "settings option \<Rightarrow> string props" where
  "example_props st =
     \<lparr>messages = [], unseenMessages = \<lparr>ident = 0, elems = []\<rparr>, fullscreenMessage = None,
      config = \<lparr>active = True, settings = st\<rparr>, typingIndicator = TypingRemove,
      isOpen = False, messagePlugins = Some [HostMessagePlugin 7], inputPlugins = None,
      inputMode = ''text'', connected = False, reconnectionLimit = False\<rparr>"

definition text_of :: "string \<Rightarrow> string" where
  "text_of m = m"

definition shop_props :: "string props" where
  "shop_props = example_props (Some all_settings)"

definition connected_props :: "string props" where
  "connected_props = shop_props\<lparr>connected := True, messagePlugins := None\<rparr>"

definition example_events :: "string event list" where
  "example_events = [Update connected_props, Tick, Update shop_props]"

definition three_unseen :: "string props" where
  "three_unseen = shop_props\<lparr>unseenMessages := \<lparr>ident = 1, elems = [''Hi'', ''Are you there?'', ''Hello'']\<rparr>\<rparr>"

definition none_unseen :: "string props" where
  "none_unseen = shop_props\<lparr>unseenMessages := \<lparr>ident = 2, elems = []\<rparr>\<rparr>"

definition quiet_props :: "string props" where
  "quiet_props =
     (example_props (Some no_settings))
       \<lparr>unseenMessages := \<lparr>ident = 1, elems = [''Hi'', ''Are you there?'', ''Hello'']\<rparr>\<rparr>"

definition open_props :: "string props" where
  "open_props = shop_props\<lparr>isOpen := True\<rparr>"

definition open_unseen :: "string props" where
  "open_unseen = open_props\<lparr>unseenMessages := \<lparr>ident = 1, elems = [''Hello'']\<rparr>\<rparr>"

definition inactive_props :: "settings option \<Rightarrow> string props" where
  "inactive_props st = (example_props st)\<lparr>config := \<lparr>active = False, settings = st\<rparr>\<rparr>"

definition fullscreen_props :: "string props" where
  "fullscreen_props = open_props\<lparr>fullscreenMessage := Some ''Gallery''\<rparr>"

definition open_disconnected :: "string props" where
  "open_disconnected = open_props\<lparr>connected := False\<rparr>"

definition open_connected :: "string props" where
  "open_connected = open_props\<lparr>connected := True\<rparr>"

section \<open>Predicates used in the statements\<close>

text \<open>A boolean setting counts as set when the settings block has it and it is true.\<close>

definition flag_set :: "(settings \<Rightarrow> bool option) \<Rightarrow> 'm props \<Rightarrow> bool" where
  "flag_set f p = (case settings (config p) of None \<Rightarrow> False | Some st \<Rightarrow> truthy (f st))"

text \<open>The live timers are exactly the one whose handle the component holds, if any.\<close>

definition timer_inv :: "'m component \<Rightarrow> bool" where
  "timer_inv c =
     (intervals c = (case unreadTitleIndicatorInterval c of None \<Rightarrow> [] | Some t \<Rightarrow> [t]))"

text \<open>In the phase \<^verbatim>\<open>'original'\<close> the document shows the title captured at construction.\<close>

definition title_inv :: "'m component \<Rightarrow> bool" where
  "title_inv c = (titleType c = original \<longrightarrow> document_title c = originalTitle c)"

text \<open>What holds of every component that was mounted and has lived through events.\<close>

definition lifecycle_inv :: "'m component \<Rightarrow> bool" where
  "lifecycle_inv c = (timer_inv c \<and> title_inv c \<and> settings (config (props c)) \<noteq> None)"

text \<open>
  Nothing is left for a re-render to do: the theme agrees with the colour scheme, and a
  component whose props say connected has latched.
\<close>

definition settled :: "'m component \<Rightarrow> bool" where
  "settled c =
     (derive_state (props c) (state c) = state c
      \<and> (connected (props c) \<longrightarrow> hadConnection (state c)))"

section \<open>Basic facts\<close>

lemma error_is_TypeError: "(e::error) = TypeError"
  by (cases e) simp

lemma renderRegularLayout_ok:
  "settings (config (props c)) = Some st \<Longrightarrow> \<exists>l. renderRegularLayout c = Inr l"
  by (simp add: renderRegularLayout_def)

lemma render_isl: "isl (render c) = (settings (config (props c)) = None)"
  by (auto simp: render_def renderRegularLayout_def Let_def split: option.splits)

lemma derive_state_fields:
  "messagePlugins_st (derive_state p s) = messagePlugins_st s"
  "inputPlugins_st (derive_state p s) = inputPlugins_st s"
  "hadConnection (derive_state p s) = hadConnection s"
  "lastUnseenMessageText (derive_state p s) = lastUnseenMessageText s"
  by (simp_all add: derive_state_def getDerivedStateFromProps_def Let_def)

lemma did_mount_eq:
  "did_mount p doc =
     (case settings (config p) of None \<Rightarrow> Inl TypeError
      | Some st \<Rightarrow> componentDidMount ((construct p doc)\<lparr>state := derive_state p initial_state\<rparr>))"
proof (cases "settings (config p)")
  case None
  then have "isl (render ((construct p doc)\<lparr>state := derive_state p (state (construct p doc))\<rparr>))"
    by (simp add: render_isl construct_def)
  then show ?thesis using None
    by (auto simp: did_mount_def Let_def error_is_TypeError split: sum.splits)
next
  case (Some st)
  then have "\<not> isl (render ((construct p doc)\<lparr>state := derive_state p (state (construct p doc))\<rparr>))"
    by (simp add: render_isl construct_def)
  then show ?thesis using Some
    by (auto simp: did_mount_def Let_def construct_def split: sum.splits)
qed

lemma update_eq:
  "update g p c =
     (case settings (config p) of None \<Rightarrow> Inl TypeError
      | Some st \<Rightarrow> componentDidUpdate g (props c) (state c)
                     (c\<lparr>props := p, state := derive_state p (state c)\<rparr>))"
proof (cases "settings (config p)")
  case None
  then have "isl (render (c\<lparr>props := p, state := derive_state p (state c)\<rparr>))"
    by (simp add: render_isl)
  then show ?thesis using None
    by (auto simp: update_def Let_def error_is_TypeError split: sum.splits)
next
  case (Some st)
  then have "\<not> isl (render (c\<lparr>props := p, state := derive_state p (state c)\<rparr>))"
    by (simp add: render_isl)
  then show ?thesis using Some
    by (auto simp: update_def Let_def split: sum.splits)
qed

lemma initializeTitleIndicator_fields:
  "props (initializeTitleIndicator c) = props c"
  "state (initializeTitleIndicator c) = state c"
  "originalTitle (initializeTitleIndicator c) = originalTitle c"
  "titleType (initializeTitleIndicator c) = titleType c"
  "document_title (initializeTitleIndicator c) = document_title c"
  "sounds_played (initializeTitleIndicator c) = sounds_played c"
  by (simp_all add: initializeTitleIndicator_def setInterval_def split: option.splits)

lemma initializeTitleIndicator_inv:
  "timer_inv c \<Longrightarrow> timer_inv (initializeTitleIndicator c)"
  by (simp add: timer_inv_def initializeTitleIndicator_def setInterval_def split: option.splits)

lemma initializeTitleIndicator_idem:
  "initializeTitleIndicator (initializeTitleIndicator c) = initializeTitleIndicator c"
  by (simp add: initializeTitleIndicator_def setInterval_def split: option.splits)

lemma recompute_theme_fields:
  "props (recompute_theme st pst c) = props c"
  "messagePlugins_st (state (recompute_theme st pst c)) = messagePlugins_st (state c)"
  "inputPlugins_st (state (recompute_theme st pst c)) = inputPlugins_st (state c)"
  "hadConnection (state (recompute_theme st pst c)) = hadConnection (state c)"
  "lastUnseenMessageText (state (recompute_theme st pst c)) = lastUnseenMessageText (state c)"
  "originalTitle (recompute_theme st pst c) = originalTitle c"
  "titleType (recompute_theme st pst c) = titleType c"
  "document_title (recompute_theme st pst c) = document_title c"
  "intervals (recompute_theme st pst c) = intervals c"
  "unreadTitleIndicatorInterval (recompute_theme st pst c) = unreadTitleIndicatorInterval c"
  by (simp_all add: recompute_theme_def)

lemma latch_connection_fields:
  "props (latch_connection ps c) = props c"
  "messagePlugins_st (state (latch_connection ps c)) = messagePlugins_st (state c)"
  "inputPlugins_st (state (latch_connection ps c)) = inputPlugins_st (state c)"
  "hadConnection (state (latch_connection ps c)) =
     (hadConnection (state c) \<or> (\<not> hadConnection ps \<and> connected (props c)))"
  "lastUnseenMessageText (state (latch_connection ps c)) = lastUnseenMessageText (state c)"
  "originalTitle (latch_connection ps c) = originalTitle c"
  "titleType (latch_connection ps c) = titleType c"
  "document_title (latch_connection ps c) = document_title c"
  "intervals (latch_connection ps c) = intervals c"
  "unreadTitleIndicatorInterval (latch_connection ps c) = unreadTitleIndicatorInterval c"
  by (simp_all add: latch_connection_def)

lemma unseen_changed_fields:
  "props (unseen_changed g pp st c) = props c"
  "messagePlugins_st (state (unseen_changed g pp st c)) = messagePlugins_st (state c)"
  "inputPlugins_st (state (unseen_changed g pp st c)) = inputPlugins_st (state c)"
  "hadConnection (state (unseen_changed g pp st c)) = hadConnection (state c)"
  "lastUnseenMessageText (state (unseen_changed g pp st c)) =
     (if ident (unseenMessages pp) \<noteq> ident (unseenMessages (props c))
         \<and> truthy (enableUnreadMessagePreview st)
      then (if elems (unseenMessages (props c)) = [] then []
            else g (last (elems (unseenMessages (props c)))))
      else lastUnseenMessageText (state c))"
  "originalTitle (unseen_changed g pp st c) = originalTitle c"
  "titleType (unseen_changed g pp st c) = titleType c"
  "document_title (unseen_changed g pp st c) = document_title c"
  "intervals (unseen_changed g pp st c) = intervals c"
  "unreadTitleIndicatorInterval (unseen_changed g pp st c) = unreadTitleIndicatorInterval c"
  by (simp_all add: unseen_changed_def play_sound_def preview_text_def)

lemma start_indicator_fields:
  "props (start_indicator st pst c) = props c"
  "state (start_indicator st pst c) = state c"
  "originalTitle (start_indicator st pst c) = originalTitle c"
  "titleType (start_indicator st pst c) = titleType c"
  "document_title (start_indicator st pst c) = document_title c"
  by (simp_all add: start_indicator_def initializeTitleIndicator_fields)

lemma start_indicator_inv: "timer_inv c \<Longrightarrow> timer_inv (start_indicator st pst c)"
  by (simp add: start_indicator_def initializeTitleIndicator_inv)

lemma componentDidUpdate_fields:
  assumes "componentDidUpdate g pp ps c = Inr c'"
  shows "props c' = props c"
    and "messagePlugins_st (state c') = messagePlugins_st (state c)"
    and "inputPlugins_st (state c') = inputPlugins_st (state c)"
    and "hadConnection (state c') = (hadConnection (state c) \<or> (\<not> hadConnection ps \<and> connected (props c)))"
    and "originalTitle c' = originalTitle c"
    and "titleType c' = titleType c"
    and "document_title c' = document_title c"
  using assms
  by (auto simp: componentDidUpdate_def start_indicator_fields unseen_changed_fields
        latch_connection_fields recompute_theme_fields split: option.splits)

lemma componentDidUpdate_timer_inv:
  assumes "componentDidUpdate g pp ps c = Inr c'" and "timer_inv c"
  shows "timer_inv c'"
proof -
  from assms(1) obtain st pst where
    c': "c' = start_indicator st pst (unseen_changed g pp st (latch_connection ps (recompute_theme st pst c)))"
    by (auto simp: componentDidUpdate_def split: option.splits)
  have "timer_inv (unseen_changed g pp st (latch_connection ps (recompute_theme st pst c)))"
    using assms(2)
    by (simp add: timer_inv_def unseen_changed_fields latch_connection_fields recompute_theme_fields)
  then show ?thesis unfolding c' by (rule start_indicator_inv)
qed

lemma componentDidUpdate_text:
  assumes "componentDidUpdate g pp ps c = Inr c'" and "settings (config (props c)) = Some st"
  shows "lastUnseenMessageText (state c') =
           (if ident (unseenMessages pp) \<noteq> ident (unseenMessages (props c))
               \<and> truthy (enableUnreadMessagePreview st)
            then (if elems (unseenMessages (props c)) = [] then []
                  else g (last (elems (unseenMessages (props c)))))
            else lastUnseenMessageText (state c))"
  using assms
  by (auto simp: componentDidUpdate_def start_indicator_fields unseen_changed_fields
        latch_connection_fields recompute_theme_fields split: option.splits)

lemma update_fields:
  assumes "update g p c = Inr c'"
  shows "props c' = p"
    and "messagePlugins_st (state c') = messagePlugins_st (state c)"
    and "inputPlugins_st (state c') = inputPlugins_st (state c)"
    and "hadConnection (state c') = (hadConnection (state c) \<or> connected p)"
    and "originalTitle c' = originalTitle c"
    and "titleType c' = titleType c"
    and "document_title c' = document_title c"
    and "settings (config p) \<noteq> None"
proof -
  let ?c1 = "c\<lparr>props := p, state := derive_state p (state c)\<rparr>"
  from assms have st: "settings (config p) \<noteq> None"
    by (auto simp: update_eq split: option.splits)
  with assms have cdu: "componentDidUpdate g (props c) (state c) ?c1 = Inr c'"
    by (auto simp: update_eq split: option.splits)
  show "settings (config p) \<noteq> None" by (rule st)
  show "props c' = p" using componentDidUpdate_fields(1)[OF cdu] by simp
  show "messagePlugins_st (state c') = messagePlugins_st (state c)"
    using componentDidUpdate_fields(2)[OF cdu] by (simp add: derive_state_fields)
  show "inputPlugins_st (state c') = inputPlugins_st (state c)"
    using componentDidUpdate_fields(3)[OF cdu] by (simp add: derive_state_fields)
  show "hadConnection (state c') = (hadConnection (state c) \<or> connected p)"
    using componentDidUpdate_fields(4)[OF cdu] by (auto simp add: derive_state_fields)
  show "originalTitle c' = originalTitle c" using componentDidUpdate_fields(5)[OF cdu] by simp
  show "titleType c' = titleType c" using componentDidUpdate_fields(6)[OF cdu] by simp
  show "document_title c' = document_title c" using componentDidUpdate_fields(7)[OF cdu] by simp
qed

lemma update_timer_inv:
  assumes "update g p c = Inr c'" and "timer_inv c"
  shows "timer_inv c'"
proof -
  let ?c1 = "c\<lparr>props := p, state := derive_state p (state c)\<rparr>"
  from assms(1) have cdu: "componentDidUpdate g (props c) (state c) ?c1 = Inr c'"
    by (auto simp: update_eq split: option.splits)
  have "timer_inv ?c1" using assms(2) by (simp add: timer_inv_def)
  with cdu show ?thesis by (rule componentDidUpdate_timer_inv)
qed

lemma update_text:
  assumes "update g p c = Inr c'" and "settings (config p) = Some st"
  shows "lastUnseenMessageText (state c') =
           (if ident (unseenMessages (props c)) \<noteq> ident (unseenMessages p)
               \<and> truthy (enableUnreadMessagePreview st)
            then (if elems (unseenMessages p) = [] then [] else g (last (elems (unseenMessages p))))
            else lastUnseenMessageText (state c))"
proof -
  let ?c1 = "c\<lparr>props := p, state := derive_state p (state c)\<rparr>"
  from assms have cdu: "componentDidUpdate g (props c) (state c) ?c1 = Inr c'"
    by (auto simp: update_eq split: option.splits)
  show ?thesis using componentDidUpdate_text[OF cdu, of st] assms(2)
    by (simp add: derive_state_fields)
qed

lemma update_succeeds:
  assumes "settings (config p) \<noteq> None" and "settings (config (props c)) \<noteq> None"
  shows "\<exists>c'. update g p c = Inr c'"
  using assms by (auto simp: update_eq componentDidUpdate_def split: option.splits)

lemma fire_fields:
  "props (fire c) = props c"
  "state (fire c) = state c"
  "originalTitle (fire c) = originalTitle c"
  "intervals (fire c) = intervals c"
  "unreadTitleIndicatorInterval (fire c) = unreadTitleIndicatorInterval c"
  by (simp_all add: fire_def toggleTitleIndicator_def split: option.splits)

lemma fire_title_inv: "title_inv c \<Longrightarrow> title_inv (fire c)"
  by (simp add: fire_def toggleTitleIndicator_def title_inv_def split: option.splits)

lemma tick_cases:
  "timer_inv c \<Longrightarrow> tick c = (if unreadTitleIndicatorInterval c = None then c else fire c)"
  by (auto simp: tick_def timer_inv_def)

lemma tick_fields:
  assumes "timer_inv c"
  shows "props (tick c) = props c"
    and "state (tick c) = state c"
    and "originalTitle (tick c) = originalTitle c"
    and "timer_inv (tick c)"
  using assms by (simp_all add: tick_cases fire_fields timer_inv_def)

lemma tick_title_inv: "timer_inv c \<Longrightarrow> title_inv c \<Longrightarrow> title_inv (tick c)"
  by (simp add: tick_cases fire_title_inv)

lemma componentDidMount_eq:
  "componentDidMount c =
     (case settings (config (props c)) of
        None \<Rightarrow> Inl TypeError
      | Some st \<Rightarrow>
          (let c1 = c\<lparr>state := (state c)
                 \<lparr>inputPlugins_st :=
                    (case inputPlugins (props c) of None \<Rightarrow> [] | Some xs \<Rightarrow> xs) @ [textInputPlugin],
                  messagePlugins_st :=
                    (case messagePlugins (props c) of None \<Rightarrow> [] | Some xs \<Rightarrow> xs) @ [regularMessagePlugin]\<rparr>\<rparr>
           in Inr (start_indicator st no_settings c1)))"
  by (simp add: componentDidMount_def start_indicator_def no_settings_def truthy_def Let_def
        split: option.splits)

lemma did_mount_fields:
  assumes "did_mount p doc = Inr c"
  shows "props c = p"
    and "messagePlugins_st (state c) =
           (case messagePlugins p of None \<Rightarrow> [] | Some xs \<Rightarrow> xs) @ [regularMessagePlugin]"
    and "inputPlugins_st (state c) =
           (case inputPlugins p of None \<Rightarrow> [] | Some xs \<Rightarrow> xs) @ [textInputPlugin]"
    and "\<not> hadConnection (state c)"
    and "lastUnseenMessageText (state c) = []"
    and "originalTitle c = doc"
    and "titleType c = original"
    and "document_title c = doc"
    and "settings (config p) \<noteq> None"
  using assms
  by (auto simp: did_mount_eq componentDidMount_eq construct_def Let_def start_indicator_fields
        derive_state_fields initial_state_def split: option.splits)

lemma did_mount_timer_inv:
  assumes "did_mount p doc = Inr c"
  shows "timer_inv c"
proof -
  from assms obtain st c1 where c: "c = start_indicator st no_settings c1" and "timer_inv c1"
    by (auto simp: did_mount_eq componentDidMount_eq construct_def Let_def timer_inv_def
          split: option.splits)
  then show ?thesis by (simp add: start_indicator_inv)
qed

lemma did_mount_succeeds: "settings (config p) \<noteq> None \<Longrightarrow> \<exists>c. did_mount p doc = Inr c"
  by (auto simp: did_mount_eq componentDidMount_eq Let_def construct_def)

lemma mount_cases:
  assumes "mount g p doc = Inr c"
  obtains c1 where "did_mount p doc = Inr c1"
    and "componentDidUpdate g p (derive_state p initial_state)
           (c1\<lparr>state := derive_state p (state c1)\<rparr>) = Inr c"
proof -
  from assms obtain c1 where d: "did_mount p doc = Inr c1"
    by (auto simp: mount_def split: sum.splits)
  with assms have "componentDidUpdate g p (derive_state p initial_state)
           (c1\<lparr>state := derive_state p (state c1)\<rparr>) = Inr c"
    by (auto simp: mount_def Let_def split: sum.splits)
  with d show ?thesis by (rule that)
qed

lemma mount_fields:
  assumes "mount g p doc = Inr c"
  shows "props c = p"
    and "messagePlugins_st (state c) =
           (case messagePlugins p of None \<Rightarrow> [] | Some xs \<Rightarrow> xs) @ [regularMessagePlugin]"
    and "inputPlugins_st (state c) =
           (case inputPlugins p of None \<Rightarrow> [] | Some xs \<Rightarrow> xs) @ [textInputPlugin]"
    and "hadConnection (state c) = connected p"
    and "lastUnseenMessageText (state c) = []"
    and "originalTitle c = doc"
    and "titleType c = original"
    and "document_title c = doc"
    and "settings (config p) \<noteq> None"
proof -
  from assms obtain c1 where d: "did_mount p doc = Inr c1"
    and u: "componentDidUpdate g p (derive_state p initial_state)
              (c1\<lparr>state := derive_state p (state c1)\<rparr>) = Inr c"
    by (rule mount_cases)
  note f = did_mount_fields[OF d]
  show "settings (config p) \<noteq> None" by (rule f(9))
  then obtain st where st: "settings (config p) = Some st" by auto
  show "props c = p" using componentDidUpdate_fields(1)[OF u] f(1) by simp
  show "messagePlugins_st (state c) =
           (case messagePlugins p of None \<Rightarrow> [] | Some xs \<Rightarrow> xs) @ [regularMessagePlugin]"
    using componentDidUpdate_fields(2)[OF u] f(2) by (simp add: derive_state_fields)
  show "inputPlugins_st (state c) =
           (case inputPlugins p of None \<Rightarrow> [] | Some xs \<Rightarrow> xs) @ [textInputPlugin]"
    using componentDidUpdate_fields(3)[OF u] f(3) by (simp add: derive_state_fields)
  show "hadConnection (state c) = connected p"
    using componentDidUpdate_fields(4)[OF u] f(1,4)
    by (simp add: derive_state_fields initial_state_def)
  show "lastUnseenMessageText (state c) = []"
    using componentDidUpdate_text[OF u, of st] f(1,5) st by (simp add: derive_state_fields)
  show "originalTitle c = doc" using componentDidUpdate_fields(5)[OF u] f(6) by simp
  show "titleType c = original" using componentDidUpdate_fields(6)[OF u] f(7) by simp
  show "document_title c = doc" using componentDidUpdate_fields(7)[OF u] f(8) by simp
qed

lemma mount_timer_inv:
  assumes "mount g p doc = Inr c"
  shows "timer_inv c"
proof -
  from assms obtain c1 where d: "did_mount p doc = Inr c1"
    and u: "componentDidUpdate g p (derive_state p initial_state)
              (c1\<lparr>state := derive_state p (state c1)\<rparr>) = Inr c"
    by (rule mount_cases)
  have "timer_inv (c1\<lparr>state := derive_state p (state c1)\<rparr>)"
    using did_mount_timer_inv[OF d] by (simp add: timer_inv_def)
  with u show ?thesis by (rule componentDidUpdate_timer_inv)
qed

lemma mount_succeeds:
  assumes "settings (config p) \<noteq> None"
  shows "\<exists>c. mount g p doc = Inr c"
proof -
  from did_mount_succeeds[OF assms] obtain c1 where d: "did_mount p doc = Inr c1" ..
  let ?c2 = "c1\<lparr>state := derive_state p (state c1)\<rparr>"
  have p: "props ?c2 = p" using did_mount_fields(1)[OF d] by simp
  with assms have "\<not> isl (render ?c2)" by (simp add: render_isl)
  then obtain v where r: "render ?c2 = Inr v" by (cases "render ?c2") auto
  from assms p obtain c where "componentDidUpdate g p (derive_state p initial_state) ?c2 = Inr c"
    by (auto simp: componentDidUpdate_def split: option.splits)
  with d r show ?thesis by (simp add: mount_def Let_def)
qed

lemma run_append:
  "run g (es @ es') c = (case run g es c of Inl x \<Rightarrow> Inl x | Inr c' \<Rightarrow> run g es' c')"
  by (induction es arbitrary: c) (auto split: sum.splits)

lemma step_fields:
  assumes "step g e c = Inr c'" and "timer_inv c"
  shows "messagePlugins_st (state c') = messagePlugins_st (state c)"
    and "inputPlugins_st (state c') = inputPlugins_st (state c)"
    and "hadConnection (state c') = (hadConnection (state c) \<or> (\<exists>q. e = Update q \<and> connected q))"
    and "originalTitle c' = originalTitle c"
    and "timer_inv c'"
    and "settings (config (props c)) \<noteq> None \<Longrightarrow> settings (config (props c')) \<noteq> None"
    and "title_inv c \<Longrightarrow> title_inv c'"
proof -
  show "messagePlugins_st (state c') = messagePlugins_st (state c)"
    using assms by (cases e) (auto simp: update_fields tick_fields)
  show "inputPlugins_st (state c') = inputPlugins_st (state c)"
    using assms by (cases e) (auto simp: update_fields tick_fields)
  show "hadConnection (state c') = (hadConnection (state c) \<or> (\<exists>q. e = Update q \<and> connected q))"
    using assms by (cases e) (auto simp: update_fields tick_fields)
  show "originalTitle c' = originalTitle c"
    using assms by (cases e) (auto simp: update_fields tick_fields)
  show "timer_inv c'"
    using assms by (cases e) (auto simp: update_timer_inv tick_fields)
  show "settings (config (props c)) \<noteq> None \<Longrightarrow> settings (config (props c')) \<noteq> None"
    using assms by (cases e) (auto simp: update_fields tick_fields)
  show "title_inv c \<Longrightarrow> title_inv c'"
  proof (cases e)
    case (Update q)
    assume "title_inv c"
    then show ?thesis using assms Update by (auto simp: update_fields title_inv_def)
  next
    case Tick
    assume "title_inv c"
    then show ?thesis using assms Tick by (auto simp: tick_title_inv)
  qed
qed

lemma step_inv: "step g e c = Inr c' \<Longrightarrow> lifecycle_inv c \<Longrightarrow> lifecycle_inv c'"
  using step_fields(5,6,7)[of g e c c'] by (simp add: lifecycle_inv_def)

lemma run_inv: "run g es c = Inr c' \<Longrightarrow> lifecycle_inv c \<Longrightarrow> lifecycle_inv c'"
proof (induction es arbitrary: c)
  case Nil
  then show ?case by simp
next
  case (Cons e es)
  then obtain c1 where s: "step g e c = Inr c1" and r: "run g es c1 = Inr c'"
    by (auto split: sum.splits)
  from step_inv[OF s Cons.prems(2)] Cons.IH[OF r] show ?case by simp
qed

lemma run_fields:
  assumes "run g es c = Inr c'" and "lifecycle_inv c"
  shows "messagePlugins_st (state c') = messagePlugins_st (state c)
       \<and> inputPlugins_st (state c') = inputPlugins_st (state c)
       \<and> hadConnection (state c') = (hadConnection (state c) \<or> (\<exists>q. Update q \<in> set es \<and> connected q))
       \<and> originalTitle c' = originalTitle c"
  using assms
proof (induction es arbitrary: c)
  case Nil
  then show ?case by simp
next
  case (Cons e es)
  then obtain c1 where s: "step g e c = Inr c1" and r: "run g es c1 = Inr c'"
    by (auto split: sum.splits)
  have t: "timer_inv c" using Cons.prems(2) by (simp add: lifecycle_inv_def)
  note f = step_fields(1-4)[OF s t]
  from Cons.IH[OF r step_inv[OF s Cons.prems(2)]] f show ?case by auto
qed

lemma mount_inv: "mount g p doc = Inr c \<Longrightarrow> lifecycle_inv c"
  using mount_fields(1,6,7,8,9)[of g p doc c] mount_timer_inv[of g p doc c]
  by (simp add: lifecycle_inv_def title_inv_def)

lemma lifetime_cases:
  assumes "lifetime g p doc es = Inr c"
  obtains c0 where "mount g p doc = Inr c0" and "run g es c0 = Inr c"
  using assms by (auto simp: lifetime_def split: sum.splits)

lemma lifetime_inv: "lifetime g p doc es = Inr c \<Longrightarrow> lifecycle_inv c"
  by (erule lifetime_cases) (auto dest: mount_inv run_inv)

text \<open>With a settings block in every props object nothing throws; an absent flag reads as false.\<close>

lemma absent_flag_off: "truthy None = truthy (Some False)"
  by (simp add: truthy_def)

lemma run_succeeds:
  assumes "settings (config (props c)) \<noteq> None" and "timer_inv c"
    and "\<forall>q. Update q \<in> set es \<longrightarrow> settings (config q) \<noteq> None"
  shows "\<exists>c'. run g es c = Inr c'"
  using assms
proof (induction es arbitrary: c)
  case Nil
  then show ?case by simp
next
  case (Cons e es)
  have "\<exists>c1. step g e c = Inr c1"
  proof (cases e)
    case (Update q)
    with Cons.prems(3) have "settings (config q) \<noteq> None" by simp
    with Cons.prems(1) Update show ?thesis by (simp add: update_succeeds)
  next
    case Tick
    then show ?thesis by simp
  qed
  then obtain c1 where s: "step g e c = Inr c1" ..
  from step_fields(5,6)[OF s Cons.prems(2)] Cons.prems(1)
  have "settings (config (props c1)) \<noteq> None" "timer_inv c1" by simp_all
  with Cons.IH[of c1] Cons.prems(3) obtain c' where "run g es c1 = Inr c'" by auto
  with s show ?case by simp
qed

lemma lifetime_succeeds:
  assumes "settings (config p) \<noteq> None"
    and "\<forall>q. Update q \<in> set es \<longrightarrow> settings (config q) \<noteq> None"
  shows "\<exists>c. lifetime g p doc es = Inr c"
proof -
  from mount_succeeds[OF assms(1)] obtain c0 where m: "mount g p doc = Inr c0" ..
  from mount_inv[OF m] have "settings (config (props c0)) \<noteq> None" "timer_inv c0"
    by (simp_all add: lifecycle_inv_def)
  from run_succeeds[OF this assms(2)] obtain c where "run g es c0 = Inr c" ..
  with m show ?thesis by (simp add: lifetime_def)
qed

text \<open>A re-render with the props unchanged changes nothing.\<close>

lemma derive_state_fix:
  assumes "settings (config p) = Some st"
    and "truthy_string (colorScheme st) \<longrightarrow> primaryColor (theme s) = colorScheme st"
  shows "derive_state p s = s"
  using assms by (auto simp: derive_state_def getDerivedStateFromProps_def Let_def)

lemma derive_state_theme:
  assumes "settings (config p) = Some st" and "truthy_string (colorScheme st)"
  shows "primaryColor (theme (derive_state p s)) = colorScheme st"
  using assms
  by (auto simp: derive_state_def getDerivedStateFromProps_def Let_def createWebchatTheme_def)

lemma componentDidUpdate_theme:
  assumes "componentDidUpdate g pp ps c = Inr c'"
    and "settings (config (props c)) = Some st" and "settings (config pp) = Some pst"
  shows "theme (state c') =
           (if colorScheme st \<noteq> colorScheme pst then createWebchatTheme (colorScheme st)
            else theme (state c))"
proof -
  have a: "theme (state (recompute_theme st pst c)) =
           (if colorScheme st \<noteq> colorScheme pst then createWebchatTheme (colorScheme st)
            else theme (state c))"
    by (simp add: recompute_theme_def)
  have b: "\<And>d. theme (state (latch_connection ps d)) = theme (state d)"
    by (simp add: latch_connection_def)
  have e: "\<And>d. theme (state (unseen_changed g pp st d)) = theme (state d)"
    by (simp add: unseen_changed_def play_sound_def preview_text_def)
  from assms have "c' = start_indicator st pst
       (unseen_changed g pp st (latch_connection ps (recompute_theme st pst c)))"
    by (simp add: componentDidUpdate_def)
  then show ?thesis by (simp add: start_indicator_fields a b e)
qed

lemma update_settled:
  assumes "update g q c = Inr c'" and "settings (config (props c)) \<noteq> None"
  shows "settled c'"
proof -
  let ?c1 = "c\<lparr>props := q, state := derive_state q (state c)\<rparr>"
  from update_fields(8)[OF assms(1)] obtain st where st: "settings (config q) = Some st"
    by auto
  from assms(2) obtain pst where pst: "settings (config (props c)) = Some pst" by auto
  from assms(1) st have u: "componentDidUpdate g (props c) (state c) ?c1 = Inr c'"
    by (simp add: update_eq)
  have t: "theme (state c') =
           (if colorScheme st \<noteq> colorScheme pst then createWebchatTheme (colorScheme st)
            else theme (derive_state q (state c)))"
    using componentDidUpdate_theme[OF u, of st pst] st pst by simp
  have "truthy_string (colorScheme st) \<longrightarrow> primaryColor (theme (state c')) = colorScheme st"
    using t derive_state_theme[OF st, of "state c"] by (simp add: createWebchatTheme_def)
  with st have "derive_state q (state c') = state c'" by (rule derive_state_fix)
  with update_fields(1,4)[OF assms(1)] show ?thesis by (simp add: settled_def)
qed

lemma mount_settled:
  assumes "mount g p doc = Inr c"
  shows "settled c"
proof -
  from assms obtain c1 where d: "did_mount p doc = Inr c1"
    and u: "componentDidUpdate g p (derive_state p initial_state)
              (c1\<lparr>state := derive_state p (state c1)\<rparr>) = Inr c"
    by (rule mount_cases)
  from mount_fields(9)[OF assms] obtain st where st: "settings (config p) = Some st" by auto
  have "theme (state c) = theme (derive_state p (state c1))"
    using componentDidUpdate_theme[OF u, of st st] st did_mount_fields(1)[OF d] by simp
  then have "truthy_string (colorScheme st) \<longrightarrow> primaryColor (theme (state c)) = colorScheme st"
    using derive_state_theme[OF st, of "state c1"] by simp
  with st have "derive_state p (state c) = state c" by (rule derive_state_fix)
  with mount_fields(1,4)[OF assms] show ?thesis by (simp add: settled_def)
qed

lemma step_settled:
  assumes "step g e c = Inr c'" and "lifecycle_inv c" and "settled c"
  shows "settled c'"
proof (cases e)
  case (Update q)
  with assms show ?thesis by (auto simp: lifecycle_inv_def intro: update_settled)
next
  case Tick
  with assms tick_fields(1,2)[of c] show ?thesis by (auto simp: lifecycle_inv_def settled_def)
qed

lemma run_settled:
  assumes "run g es c = Inr c'" and "lifecycle_inv c" and "settled c"
  shows "settled c'"
  using assms
proof (induction es arbitrary: c)
  case Nil
  then show ?case by simp
next
  case (Cons e es)
  then obtain c1 where s: "step g e c = Inr c1" and r: "run g es c1 = Inr c'"
    by (auto split: sum.splits)
  from Cons.IH[OF r step_inv[OF s Cons.prems(2)] step_settled[OF s Cons.prems(2,3)]]
  show ?case .
qed

lemma latch_connection_settled:
  assumes "settled c"
  shows "latch_connection ps c = c"
proof (cases "\<not> hadConnection ps \<and> connected (props c)")
  case True
  with assms have "hadConnection (state c)" by (simp add: settled_def)
  then have "(state c)\<lparr>hadConnection := True\<rparr> = state c" by (cases "state c") simp
  with True show ?thesis by (simp add: latch_connection_def)
next
  case False
  then show ?thesis by (auto simp: latch_connection_def)
qed

lemma rerender_stable:
  assumes "lifetime g p doc es = Inr c"
  shows "update g (props c) c = Inr c"
    and "componentDidUpdate g (props c) ps (c\<lparr>state := derive_state (props c) (state c)\<rparr>) = Inr c"
proof -
  from assms obtain c0 where m: "mount g p doc = Inr c0" and r: "run g es c0 = Inr c"
    by (rule lifetime_cases)
  have s: "settled c" using r mount_inv[OF m] mount_settled[OF m] by (rule run_settled)
  from lifetime_inv[OF assms] obtain st where st: "settings (config (props c)) = Some st"
    by (auto simp: lifecycle_inv_def)
  from s have e: "derive_state (props c) (state c) = state c"
    by (simp add: settled_def)
  have u: "componentDidUpdate g (props c) ps' c = Inr c" for ps'
    using st
    by (simp add: componentDidUpdate_def recompute_theme_def latch_connection_settled[OF s]
          unseen_changed_def start_indicator_def)
  from u show "update g (props c) c = Inr c" using st by (simp add: update_eq e)
  from u show "componentDidUpdate g (props c) ps
                 (c\<lparr>state := derive_state (props c) (state c)\<rparr>) = Inr c"
    by (simp add: e)
qed

section \<open>Evaluation of the examples\<close>

lemmas eval_defs =
  lifetime_def mount_def did_mount_def update_def render_def renderRegularLayout_def renderHistory_def
  renderInput_def renderFullscreenMessageLayout_def construct_def derive_state_def
  getDerivedStateFromProps_def initial_state_def createWebchatTheme_def componentDidMount_def
  componentDidUpdate_def recompute_theme_def latch_connection_def unseen_changed_def
  preview_text_def play_sound_def start_indicator_def initializeTitleIndicator_def
  setInterval_def clearInterval_def componentWillUnmount_def toggleTitleIndicator_def
  fire_def tick_def truthy_def truthy_string_def template_string_def
  example_props_def all_settings_def no_settings_def text_of_def Let_def

lemma example_lifetime:
  "\<exists>c. lifetime text_of shop_props ''Shop'' example_events = Inr c"
  by (simp add: eval_defs shop_props_def connected_props_def example_events_def)

section \<open>The resolved plugin lists\<close>

text \<open>
  C2. The resolved plugin lists are built once, by \<^verbatim>\<open>componentDidMount\<close>: whatever
  events follow (updates may carry other plugin lists), the resolved message plugins are
  the message plugins of the props the component was mounted with (none when absent)
  followed by the built-in regular-message plugin, and the resolved input plugins are the
  input plugins of those props followed by the built-in text-input plugin. Each list
  ends with its default entry.
\<close>

theorem resolved_plugins_built_once:
  assumes "lifetime g p doc es = Inr c"
  shows "messagePlugins_st (state c) =
           (case messagePlugins p of None \<Rightarrow> [] | Some xs \<Rightarrow> xs) @ [regularMessagePlugin]
       \<and> inputPlugins_st (state c) =
           (case inputPlugins p of None \<Rightarrow> [] | Some xs \<Rightarrow> xs) @ [textInputPlugin]
       \<and> last (messagePlugins_st (state c)) = regularMessagePlugin
       \<and> last (inputPlugins_st (state c)) = textInputPlugin"
proof -
  from assms obtain c0 where m: "mount g p doc = Inr c0" and r: "run g es c0 = Inr c"
    by (rule lifetime_cases)
  from run_fields[OF r mount_inv[OF m]] mount_fields(2,3)[OF m] show ?thesis by simp
qed

theorem resolved_plugins_built_once_witness:
  "\<exists>c. lifetime text_of shop_props ''Shop'' example_events = Inr c
     \<and> messagePlugins_st (state c) = [HostMessagePlugin 7, regularMessagePlugin]
     \<and> inputPlugins_st (state c) = [textInputPlugin]"
proof -
  from example_lifetime obtain c where
    h: "lifetime text_of shop_props ''Shop'' example_events = Inr c" ..
  from resolved_plugins_built_once [OF h] have
    "messagePlugins_st (state c) = [HostMessagePlugin 7, regularMessagePlugin]
     \<and> inputPlugins_st (state c) = [textInputPlugin]"
    by (simp add: shop_props_def example_props_def)
  with h show ?thesis by blast
qed

section \<open>The connection latch\<close>

text \<open>
  C3. \<open>hadConnection\<close> is false in the component as constructed and still false after
  \<^verbatim>\<open>componentDidMount\<close>. The updates of a component are the one that
  \<^verbatim>\<open>componentDidMount\<close> forces, with the props the component was mounted with, and
  then those of the events. After any sequence of events \<open>hadConnection\<close> is true
  exactly if one of the updates so far had \<^verbatim>\<open>connected\<close> true, so it turns true at
  the first such update; and once it is true it stays true through whatever events
  follow, updates with \<^verbatim>\<open>connected\<close> false included.
\<close>

theorem hadConnection_latch:
  assumes "lifetime g p doc (es @ es') = Inr c'"
  shows "\<not> hadConnection (state (construct p doc))
       \<and> (\<exists>c1. did_mount p doc = Inr c1 \<and> \<not> hadConnection (state c1))
       \<and> (\<exists>c. lifetime g p doc es = Inr c
             \<and> hadConnection (state c) =
                 (connected p \<or> (\<exists>q. Update q \<in> set es \<and> connected q))
             \<and> (hadConnection (state c) \<longrightarrow> hadConnection (state c')))"
proof -
  from assms obtain c0 where m: "mount g p doc = Inr c0" and r: "run g (es @ es') c0 = Inr c'"
    by (rule lifetime_cases)
  from m obtain c1 where d: "did_mount p doc = Inr c1" by (rule mount_cases)
  from r obtain c where r1: "run g es c0 = Inr c" and r2: "run g es' c = Inr c'"
    by (auto simp: run_append split: sum.splits)
  have i0: "lifecycle_inv c0" using m by (rule mount_inv)
  have i: "lifecycle_inv c" using r1 i0 by (rule run_inv)
  have a: "\<not> hadConnection (state (construct p doc))"
    by (simp add: construct_def initial_state_def)
  have b: "\<exists>c1. did_mount p doc = Inr c1 \<and> \<not> hadConnection (state c1)"
    using d did_mount_fields(4)[OF d] by blast
  have "hadConnection (state c) = (connected p \<or> (\<exists>q. Update q \<in> set es \<and> connected q))"
    using run_fields[OF r1 i0] mount_fields(4)[OF m] by simp
  moreover have "hadConnection (state c) \<longrightarrow> hadConnection (state c')"
    using run_fields[OF r2 i] by simp
  moreover have "lifetime g p doc es = Inr c"
    using m r1 by (simp add: lifetime_def)
  ultimately show ?thesis using a b by blast
qed

lemma connected_lifetime:
  "\<exists>c'. lifetime text_of connected_props ''Shop'' ([] @ [Update shop_props, Tick]) = Inr c'
     \<and> props c' = shop_props"
  by (simp add: eval_defs shop_props_def connected_props_def)

theorem hadConnection_latch_witness:
  "(\<exists>c c'. lifetime text_of connected_props ''Shop'' ([] @ [Update shop_props, Tick]) = Inr c'
      \<and> lifetime text_of connected_props ''Shop'' [] = Inr c
      \<and> \<not> hadConnection (state (construct connected_props ''Shop''))
      \<and> hadConnection (state c) \<and> hadConnection (state c') \<and> \<not> connected (props c'))
   \<and> (\<exists>c c'. lifetime text_of shop_props ''Shop'' ([Update connected_props] @ [Tick, Update shop_props]) = Inr c'
      \<and> lifetime text_of shop_props ''Shop'' [Update connected_props] = Inr c
      \<and> \<not> connected shop_props \<and> hadConnection (state c) \<and> hadConnection (state c'))"
proof -
  have k: "connected connected_props" "\<not> connected shop_props"
    by (simp_all add: connected_props_def shop_props_def example_props_def)
  from connected_lifetime obtain d' where
    h1: "lifetime text_of connected_props ''Shop'' ([] @ [Update shop_props, Tick]) = Inr d'"
    and q: "props d' = shop_props" by blast
  from hadConnection_latch [OF h1] have
    n: "\<not> hadConnection (state (construct connected_props ''Shop''))" by simp
  from hadConnection_latch [OF h1] obtain d where
    "lifetime text_of connected_props ''Shop'' [] = Inr d"
    "hadConnection (state d) = connected connected_props"
    "hadConnection (state d) \<longrightarrow> hadConnection (state d')"
    by auto
  with h1 q k n have a:
    "\<exists>c c'. lifetime text_of connected_props ''Shop'' ([] @ [Update shop_props, Tick]) = Inr c'
      \<and> lifetime text_of connected_props ''Shop'' [] = Inr c
      \<and> \<not> hadConnection (state (construct connected_props ''Shop''))
      \<and> hadConnection (state c) \<and> hadConnection (state c') \<and> \<not> connected (props c')"
    by auto
  from example_lifetime obtain c' where
    h2: "lifetime text_of shop_props ''Shop'' ([Update connected_props] @ [Tick, Update shop_props]) = Inr c'"
    by (auto simp: example_events_def)
  from hadConnection_latch [OF h2] obtain c where
    "lifetime text_of shop_props ''Shop'' [Update connected_props] = Inr c"
    "hadConnection (state c) = (connected shop_props \<or> connected connected_props)"
    "hadConnection (state c) \<longrightarrow> hadConnection (state c')"
    by auto
  with h2 k have b:
    "\<exists>c c'. lifetime text_of shop_props ''Shop'' ([Update connected_props] @ [Tick, Update shop_props]) = Inr c'
      \<and> lifetime text_of shop_props ''Shop'' [Update connected_props] = Inr c
      \<and> \<not> connected shop_props \<and> hadConnection (state c) \<and> hadConnection (state c')"
    by auto
  from a b show ?thesis by blast
qed

section \<open>The title indicator\<close>

lemma string_of_nat_3: "string_of_nat 3 = ''3''"
  by (simp add: string_of_nat.simps digit_char_def)

lemma componentWillUnmount_clears:
  assumes "timer_inv c"
  shows "intervals (componentWillUnmount c) = []"
    and "unreadTitleIndicatorInterval (componentWillUnmount c) = None"
    and "document_title (componentWillUnmount c) = document_title c"
  using assms
  by (simp_all add: componentWillUnmount_def clearInterval_def timer_inv_def split: option.splits)

lemma ticks_no_timer: "intervals c = [] \<Longrightarrow> ticks n c = c"
  by (induction n) (simp_all add: tick_def)

lemma initializeTitleIndicator_length:
  "timer_inv c \<Longrightarrow> length (intervals (initializeTitleIndicator c)) = 1"
  by (simp add: timer_inv_def initializeTitleIndicator_def setInterval_def split: option.splits)

text \<open>
  C4. At every moment of a component's life at most one interval timer is live. Asking
  \<^verbatim>\<open>initializeTitleIndicator\<close> again changes nothing, and after a request exactly one
  timer is live. \<^verbatim>\<open>componentWillUnmount\<close> cancels the timer and clears its handle, and
  however long the clock runs afterwards the document title is the one at unmount.
\<close>

theorem title_indicator_single_timer:
  assumes "lifetime g p doc es = Inr c"
  shows "length (intervals c) \<le> 1
       \<and> initializeTitleIndicator (initializeTitleIndicator c) = initializeTitleIndicator c
       \<and> length (intervals (initializeTitleIndicator c)) = 1
       \<and> intervals (componentWillUnmount c) = []
       \<and> unreadTitleIndicatorInterval (componentWillUnmount c) = None
       \<and> (\<forall>n. document_title (ticks n (componentWillUnmount c)) = document_title c)"
proof -
  from assms have "lifecycle_inv c" by (rule lifetime_inv)
  then have t: "timer_inv c" by (simp add: lifecycle_inv_def)
  have "length (intervals c) \<le> 1"
    using t by (simp add: timer_inv_def split: option.splits)
  moreover note initializeTitleIndicator_idem [of c] initializeTitleIndicator_length [OF t]
    componentWillUnmount_clears(1,2) [OF t]
  moreover have "\<forall>n. document_title (ticks n (componentWillUnmount c)) = document_title c"
    using componentWillUnmount_clears [OF t] by (simp add: ticks_no_timer)
  ultimately show ?thesis by simp
qed

lemma example_lifetime_timer:
  "\<exists>c. lifetime text_of shop_props ''Shop'' example_events = Inr c \<and> intervals c = [Timer 1]
       \<and> document_title c = ''Shop''"
  by (simp add: eval_defs shop_props_def connected_props_def example_events_def)

theorem title_indicator_single_timer_witness:
  "\<exists>c. lifetime text_of shop_props ''Shop'' example_events = Inr c
     \<and> intervals c = [Timer 1]
     \<and> intervals (componentWillUnmount c) = []
     \<and> document_title (ticks 5 (componentWillUnmount c)) = ''Shop''"
proof -
  from example_lifetime_timer obtain c where
    h: "lifetime text_of shop_props ''Shop'' example_events = Inr c"
    and i: "intervals c = [Timer 1]" and d: "document_title c = ''Shop''" by blast
  from title_indicator_single_timer [OF h] i d h show ?thesis by simp
qed

text \<open>
  C5. A tick of the title indicator, at any moment of a component's life, does not throw
  and reads the unseen messages of the current props. In the phase \<^verbatim>\<open>'unread'\<close> it
  restores the title captured at construction. In the phase \<^verbatim>\<open>'original'\<close> with no
  unseen message the title stays the captured one and the phase stays
  \<^verbatim>\<open>'original'\<close>; with \<open>N > 0\<close> unseen messages the title becomes
  \<^verbatim>\<open>(N) <unreadMessageTitleText>\<close>, with the count of that moment.
\<close>

theorem toggle_reads_live_count:
  assumes "lifetime g p doc es = Inr c"
  shows "\<exists>st c'. settings (config (props c)) = Some st \<and> toggleTitleIndicator c = Inr c'
           \<and> originalTitle c = doc
           \<and> (titleType c = unread \<longrightarrow>
                 document_title c' = originalTitle c \<and> titleType c' = original)
           \<and> (titleType c = original \<and> elems (unseenMessages (props c)) = [] \<longrightarrow>
                 document_title c' = originalTitle c \<and> titleType c' = original)
           \<and> (titleType c = original \<and> elems (unseenMessages (props c)) \<noteq> [] \<longrightarrow>
                 document_title c' =
                   ''('' @ string_of_nat (length (elems (unseenMessages (props c)))) @ '') ''
                     @ template_string (unreadMessageTitleText st)
                 \<and> titleType c' = unread)"
proof -
  from assms obtain c0 where m: "mount g p doc = Inr c0" and r: "run g es c0 = Inr c"
    by (rule lifetime_cases)
  have o: "originalTitle c = doc"
    using run_fields[OF r mount_inv[OF m]] mount_fields(6)[OF m] by simp
  from assms have "lifecycle_inv c" by (rule lifetime_inv)
  then obtain st where st: "settings (config (props c)) = Some st" and ti: "title_inv c"
    by (auto simp: lifecycle_inv_def)
  show ?thesis
  proof (cases "titleType c")
    case original
    then have d: "document_title c = originalTitle c" using ti by (simp add: title_inv_def)
    show ?thesis using original st d o by (simp add: toggleTitleIndicator_def)
  next
    case unread
    then show ?thesis using st o by (simp add: toggleTitleIndicator_def)
  qed
qed

lemma blink_lifetime:
  "\<exists>c. lifetime text_of shop_props ''Shop'' [Update three_unseen, Tick, Update none_unseen, Tick] = Inr c
       \<and> titleType c = original \<and> elems (unseenMessages (props c)) = []"
  by (simp add: eval_defs shop_props_def three_unseen_def none_unseen_def)

lemma unread_lifetime:
  "\<exists>c. lifetime text_of shop_props ''Shop'' [Update three_unseen] = Inr c
       \<and> titleType c = original \<and> length (elems (unseenMessages (props c))) = 3
       \<and> settings (config (props c)) = Some all_settings"
  by (simp add: eval_defs shop_props_def three_unseen_def)

theorem toggle_reads_live_count_witness:
  "(\<exists>c c'. lifetime text_of shop_props ''Shop'' [Update three_unseen, Tick, Update none_unseen, Tick] = Inr c
       \<and> toggleTitleIndicator c = Inr c' \<and> document_title c' = ''Shop'')
   \<and> (\<exists>c c'. lifetime text_of shop_props ''Shop'' [Update three_unseen] = Inr c
       \<and> toggleTitleIndicator c = Inr c' \<and> document_title c' = ''(3) New message'')"
proof -
  from blink_lifetime obtain c where
    h: "lifetime text_of shop_props ''Shop'' [Update three_unseen, Tick, Update none_unseen, Tick] = Inr c"
    and f: "titleType c = original" "elems (unseenMessages (props c)) = []" by blast
  from toggle_reads_live_count [OF h] f h have
    a: "\<exists>c c'. lifetime text_of shop_props ''Shop'' [Update three_unseen, Tick, Update none_unseen, Tick] = Inr c
       \<and> toggleTitleIndicator c = Inr c' \<and> document_title c' = ''Shop''"
    by auto
  from unread_lifetime obtain d where
    k: "lifetime text_of shop_props ''Shop'' [Update three_unseen] = Inr d"
    and g: "titleType d = original" "length (elems (unseenMessages (props d))) = 3"
      "settings (config (props d)) = Some all_settings" by blast
  from g have ne: "elems (unseenMessages (props d)) \<noteq> []" by auto
  from toggle_reads_live_count [OF k] g ne k have
    b: "\<exists>c c'. lifetime text_of shop_props ''Shop'' [Update three_unseen] = Inr c
       \<and> toggleTitleIndicator c = Inr c' \<and> document_title c' = ''(3) New message''"
    by (auto simp: string_of_nat_3 template_string_def all_settings_def no_settings_def)
  from a b show ?thesis by blast
qed

section \<open>The unseen-message preview\<close>

lemma step_text_disabled:
  assumes "step g e c = Inr c'" and "timer_inv c"
    and "\<forall>q. e = Update q \<longrightarrow> \<not> flag_set enableUnreadMessagePreview q"
  shows "lastUnseenMessageText (state c') = lastUnseenMessageText (state c)"
proof (cases e)
  case (Update q)
  with assms(1) have u: "update g q c = Inr c'" by simp
  then obtain st where st: "settings (config q) = Some st"
    using update_fields(8)[OF u] by auto
  with assms(3) Update have "\<not> truthy (enableUnreadMessagePreview st)"
    by (simp add: flag_set_def)
  with update_text[OF u st] show ?thesis by simp
next
  case Tick
  with assms show ?thesis by (auto simp: tick_fields)
qed

lemma run_text_disabled:
  assumes "run g es c = Inr c'" and "lifecycle_inv c"
    and "\<forall>q. Update q \<in> set es \<longrightarrow> \<not> flag_set enableUnreadMessagePreview q"
  shows "lastUnseenMessageText (state c') = lastUnseenMessageText (state c)"
  using assms
proof (induction es arbitrary: c)
  case Nil
  then show ?case by simp
next
  case (Cons e es)
  then obtain c1 where s: "step g e c = Inr c1" and r: "run g es c1 = Inr c'"
    by (auto split: sum.splits)
  have t: "timer_inv c" using Cons.prems(2) by (simp add: lifecycle_inv_def)
  have "lastUnseenMessageText (state c1) = lastUnseenMessageText (state c)"
    using s t Cons.prems(3) by (intro step_text_disabled) auto
  moreover have "lastUnseenMessageText (state c') = lastUnseenMessageText (state c1)"
    using r step_inv[OF s Cons.prems(2)] Cons.prems(3) by (intro Cons.IH) auto
  ultimately show ?case by simp
qed

text \<open>
  C8. If no update of a component's life has \<^verbatim>\<open>enableUnreadMessagePreview\<close> set,
  \<open>lastUnseenMessageText\<close> is the empty string, whatever the unseen messages are. And at
  any moment, an update whose props have the setting and an \<^verbatim>\<open>unseenMessages\<close> array of
  another identity succeeds and sets \<open>lastUnseenMessageText\<close> to the text of the last
  unseen message, or to the empty string when the array is empty.
\<close>

theorem preview_text_recomputed:
  assumes "lifetime g p doc es = Inr c"
  shows "((\<forall>q. Update q \<in> set es \<longrightarrow> \<not> flag_set enableUnreadMessagePreview q) \<longrightarrow>
            lastUnseenMessageText (state c) = [])
       \<and> (\<forall>q. flag_set enableUnreadMessagePreview q
                \<and> ident (unseenMessages q) \<noteq> ident (unseenMessages (props c)) \<longrightarrow>
              (\<exists>c'. update g q c = Inr c'
                 \<and> lastUnseenMessageText (state c') =
                     (if elems (unseenMessages q) = [] then []
                      else g (last (elems (unseenMessages q))))))"
proof -
  from assms obtain c0 where m: "mount g p doc = Inr c0" and r: "run g es c0 = Inr c"
    by (rule lifetime_cases)
  have i0: "lifecycle_inv c0" using m by (rule mount_inv)
  have i: "lifecycle_inv c" using r i0 by (rule run_inv)
  have a: "(\<forall>q. Update q \<in> set es \<longrightarrow> \<not> flag_set enableUnreadMessagePreview q) \<longrightarrow>
            lastUnseenMessageText (state c) = []"
    using run_text_disabled[OF r i0] mount_fields(5)[OF m] by simp
  have b: "\<exists>c'. update g q c = Inr c'
                 \<and> lastUnseenMessageText (state c') =
                     (if elems (unseenMessages q) = [] then []
                      else g (last (elems (unseenMessages q))))"
    if q: "flag_set enableUnreadMessagePreview q"
      "ident (unseenMessages q) \<noteq> ident (unseenMessages (props c))" for q
  proof -
    from q(1) obtain st where st: "settings (config q) = Some st"
      and en: "truthy (enableUnreadMessagePreview st)"
      by (auto simp: flag_set_def split: option.splits)
    from i have "settings (config (props c)) \<noteq> None" by (simp add: lifecycle_inv_def)
    with st obtain c' where u: "update g q c = Inr c'"
      using update_succeeds[of q c g] by auto
    from update_text[OF u st] en q(2) u show ?thesis by auto
  qed
  from a b show ?thesis by blast
qed

lemma quiet_lifetime:
  "\<exists>c. lifetime text_of (example_props (Some no_settings)) ''Shop'' [Update quiet_props, Tick] = Inr c
     \<and> ident (unseenMessages (props c)) = 1"
  by (simp add: eval_defs quiet_props_def)

theorem preview_text_recomputed_witness:
  "\<exists>c c'. lifetime text_of (example_props (Some no_settings)) ''Shop'' [Update quiet_props, Tick] = Inr c
     \<and> lastUnseenMessageText (state c) = []
     \<and> elems (unseenMessages quiet_props) = [''Hi'', ''Are you there?'', ''Hello'']
     \<and> update text_of (three_unseen\<lparr>unseenMessages := \<lparr>ident = 3, elems = [''Hi'', ''Hello'']\<rparr>\<rparr>) c = Inr c'
     \<and> lastUnseenMessageText (state c') = ''Hello''"
proof -
  let ?q = "three_unseen\<lparr>unseenMessages := \<lparr>ident = 3, elems = [''Hi'', ''Hello'']\<rparr>\<rparr>"
  from quiet_lifetime obtain c where
    h: "lifetime text_of (example_props (Some no_settings)) ''Shop'' [Update quiet_props, Tick] = Inr c"
    and i: "ident (unseenMessages (props c)) = 1" by blast
  have off: "\<forall>q. Update q \<in> set [Update quiet_props, Tick] \<longrightarrow> \<not> flag_set enableUnreadMessagePreview q"
    by (simp add: quiet_props_def example_props_def no_settings_def flag_set_def truthy_def)
  have on: "flag_set enableUnreadMessagePreview ?q"
    "ident (unseenMessages ?q) \<noteq> ident (unseenMessages (props c))"
    using i
    by (simp_all add: three_unseen_def shop_props_def example_props_def all_settings_def
          no_settings_def flag_set_def truthy_def)
  from preview_text_recomputed [OF h] off on obtain c' where
    "lastUnseenMessageText (state c) = []"
    "update text_of ?q c = Inr c'"
    "lastUnseenMessageText (state c') = text_of (last (elems (unseenMessages ?q)))"
    by (auto simp del: set_simps)
  then show ?thesis using h
    by (auto simp: text_of_def quiet_props_def)
qed

section \<open>The layout\<close>

lemma render_inactive:
  "\<not> active (config (props c)) \<Longrightarrow> settings (config (props c)) \<noteq> None \<Longrightarrow> render c = Inr None"
  by (auto simp: render_def)

lemma render_closed:
  assumes "settings (config (props c)) = Some st" and "active (config (props c))"
    and "\<not> isOpen (props c)"
  shows "\<exists>v. render c = Inr (Some v) \<and> webchatRoot v = None"
  using assms by (simp add: render_def Let_def)

lemma render_open:
  assumes "settings (config (props c)) = Some st" and "active (config (props c))"
    and "isOpen (props c)"
  shows "\<exists>v w. render c = Inr (Some v) \<and> webchatRoot v = Some w
           \<and> Inr (layout w) =
               (if fullscreenMessage (props c) = None then renderRegularLayout c
                else Inr (renderFullscreenMessageLayout c))
           \<and> disconnectOverlay w =
               (if truthy (enableConnectionStatusIndicator st) \<and> \<not> connected (props c)
                   \<and> hadConnection (state c)
                then Some \<lparr>isPermanent = reconnectionLimit (props c)\<rparr> else None)"
proof (cases "fullscreenMessage (props c) = None")
  case True
  from renderRegularLayout_ok[OF assms(1)] obtain l where l: "renderRegularLayout c = Inr l" ..
  show ?thesis using assms True l by (simp add: render_def Let_def)
next
  case False
  then obtain m where m: "fullscreenMessage (props c) = Some m" by auto
  show ?thesis using assms m by (simp add: render_def Let_def)
qed

lemma render_Some:
  "render c = Inr (Some v) \<Longrightarrow> active (config (props c)) \<and> settings (config (props c)) \<noteq> None"
  by (auto simp: render_def split: option.splits if_splits)

text \<open>
  C9. When the widget is open, an active component with a settings block renders a view,
  and every view that \<^verbatim>\<open>render\<close> returns has the chat panel with exactly one layout:
  with \<^verbatim>\<open>fullscreenMessage\<close> set it is the fullscreen view of that message and has no
  header, history or input; with \<^verbatim>\<open>fullscreenMessage\<close> unset it is the regular layout
  (header, history, input) and has no fullscreen view.
\<close>

theorem layout_switch:
  assumes "isOpen (props c)"
  shows "(active (config (props c)) \<and> settings (config (props c)) \<noteq> None \<longrightarrow>
            (\<exists>v. render c = Inr (Some v)))
       \<and> (\<forall>v. render c = Inr (Some v) \<longrightarrow>
            (\<exists>w. webchatRoot v = Some w
               \<and> (fullscreenMessage (props c) \<noteq> None \<longrightarrow>
                     layout w = FullscreenMessageLayout (fullscreenMessage (props c))
                                  (messagePlugins_st (state c))
                     \<and> regular_parts (layout w) = None)
               \<and> (fullscreenMessage (props c) = None \<longrightarrow>
                     regular_parts (layout w) \<noteq> None \<and> fullscreen_part (layout w) = None)))"
proof -
  have a: "\<exists>v. render c = Inr (Some v)"
    if "active (config (props c))" "settings (config (props c)) \<noteq> None"
    using render_open[of c] that assms by auto
  have b: "\<exists>w. webchatRoot v = Some w
               \<and> (fullscreenMessage (props c) \<noteq> None \<longrightarrow>
                     layout w = FullscreenMessageLayout (fullscreenMessage (props c))
                                  (messagePlugins_st (state c))
                     \<and> regular_parts (layout w) = None)
               \<and> (fullscreenMessage (props c) = None \<longrightarrow>
                     regular_parts (layout w) \<noteq> None \<and> fullscreen_part (layout w) = None)"
    if r: "render c = Inr (Some v)" for v
  proof -
    from render_Some[OF r] obtain st where st: "settings (config (props c)) = Some st"
      and ac: "active (config (props c))" by auto
    from render_open[OF st ac assms] r obtain w where w: "webchatRoot v = Some w"
      and l: "Inr (layout w) =
               (if fullscreenMessage (props c) = None then renderRegularLayout c
                else Inr (renderFullscreenMessageLayout c))"
      by auto
    show ?thesis
    proof (cases "fullscreenMessage (props c) = None")
      case True
      with l st have "regular_parts (layout w) \<noteq> None \<and> fullscreen_part (layout w) = None"
        by (auto simp: renderRegularLayout_def regular_parts_def fullscreen_part_def)
      with w True show ?thesis by simp
    next
      case False
      with l have "layout w = FullscreenMessageLayout (fullscreenMessage (props c))
                                  (messagePlugins_st (state c))"
        by (simp add: renderFullscreenMessageLayout_def)
      with w False show ?thesis by (simp add: regular_parts_def)
    qed
  qed
  from a b show ?thesis by blast
qed

theorem layout_switch_witness:
  "isOpen (props (construct fullscreen_props ''Shop''))
   \<and> (\<exists>v w. render (construct fullscreen_props ''Shop'') = Inr (Some v)
        \<and> webchatRoot v = Some w
        \<and> layout w = FullscreenMessageLayout (Some ''Gallery'') []
        \<and> regular_parts (layout w) = None)
   \<and> isOpen (props (construct open_props ''Shop''))
   \<and> (\<exists>v w. render (construct open_props ''Shop'') = Inr (Some v)
        \<and> webchatRoot v = Some w
        \<and> regular_parts (layout w) \<noteq> None \<and> fullscreen_part (layout w) = None)"
proof -
  have o: "isOpen (props (construct fullscreen_props ''Shop''))"
    "isOpen (props (construct open_props ''Shop''))"
    by (simp_all add: construct_def fullscreen_props_def open_props_def)
  have f: "active (config (props (construct fullscreen_props ''Shop'')))"
    "settings (config (props (construct fullscreen_props ''Shop''))) \<noteq> None"
    "fullscreenMessage (props (construct fullscreen_props ''Shop'')) = Some ''Gallery''"
    "messagePlugins_st (state (construct fullscreen_props ''Shop'')) = []"
    "active (config (props (construct open_props ''Shop'')))"
    "settings (config (props (construct open_props ''Shop''))) \<noteq> None"
    "fullscreenMessage (props (construct open_props ''Shop'')) = None"
    by (simp_all add: construct_def fullscreen_props_def open_props_def shop_props_def
          example_props_def initial_state_def)
  from layout_switch [OF o(1)] f have
    a: "\<exists>v w. render (construct fullscreen_props ''Shop'') = Inr (Some v)
        \<and> webchatRoot v = Some w
        \<and> layout w = FullscreenMessageLayout (Some ''Gallery'') []
        \<and> regular_parts (layout w) = None"
    by (metis option.distinct(1))
  from layout_switch [OF o(2)] f have
    b: "\<exists>v w. render (construct open_props ''Shop'') = Inr (Some v)
        \<and> webchatRoot v = Some w
        \<and> regular_parts (layout w) \<noteq> None \<and> fullscreen_part (layout w) = None"
    by metis
  from o a b show ?thesis by blast
qed

section \<open>The disconnect overlay\<close>

lemma overlay_rendered_iff:
  "overlay_rendered (render c) =
     (active (config (props c)) \<and> isOpen (props c)
      \<and> flag_set enableConnectionStatusIndicator (props c)
      \<and> \<not> connected (props c) \<and> hadConnection (state c))"
proof (cases "settings (config (props c))")
  case None
  then have "render c = Inl TypeError" by (simp add: render_def)
  with None show ?thesis by (simp add: overlay_rendered_def flag_set_def)
next
  case (Some st)
  show ?thesis
  proof (cases "active (config (props c))")
    case False
    with Some have "render c = Inr None" by (simp add: render_inactive)
    with False show ?thesis by (simp add: overlay_rendered_def)
  next
    case True
    show ?thesis
    proof (cases "isOpen (props c)")
      case False
      from render_closed[OF Some True False] False show ?thesis
        by (auto simp: overlay_rendered_def)
    next
      case op: True
      from render_open[OF Some True op] Some True op show ?thesis
        by (auto simp: overlay_rendered_def flag_set_def split: if_splits)
    qed
  qed
qed

text \<open>
  C7, as the component has it. The disconnect overlay is a child of the chat panel, which
  is rendered only for an active, open widget: the overlay is rendered exactly when
  \<^verbatim>\<open>config.active\<close> and \<^verbatim>\<open>open\<close> are true, \<^verbatim>\<open>enableConnectionStatusIndicator\<close> is
  set, \<^verbatim>\<open>connected\<close> is false and \<open>hadConnection\<close> is true. The updates of a component
  are the one that \<^verbatim>\<open>componentDidMount\<close> forces, with the props the component was
  mounted with, and then those of the events. As long as none of them had
  \<^verbatim>\<open>connected\<close> true no render shows the overlay: not the two renders of mounting
  (neither shows it in any case), not the render of the component as it stands, not the
  render an update to any props would perform.
  Once one of them had \<^verbatim>\<open>connected\<close> true, an active, open widget with the indicator
  enabled shows the overlay whenever \<^verbatim>\<open>connected\<close> is false.
\<close>

theorem disconnect_overlay_rendered:
  assumes "lifetime g p doc es = Inr c"
  shows "overlay_rendered (render c) =
           (active (config (props c)) \<and> isOpen (props c)
            \<and> flag_set enableConnectionStatusIndicator (props c)
            \<and> \<not> connected (props c) \<and> hadConnection (state c))
       \<and> \<not> overlay_rendered
             (render ((construct p doc)\<lparr>state := derive_state p (state (construct p doc))\<rparr>))
       \<and> (\<forall>c1. did_mount p doc = Inr c1 \<longrightarrow>
            \<not> overlay_rendered (render (c1\<lparr>state := derive_state p (state c1)\<rparr>)))
       \<and> (\<not> connected p \<and> (\<forall>q. Update q \<in> set es \<longrightarrow> \<not> connected q) \<longrightarrow>
            \<not> overlay_rendered (render c)
            \<and> (\<forall>q. \<not> overlay_rendered
                     (render (c\<lparr>props := q, state := derive_state q (state c)\<rparr>))))
       \<and> ((connected p \<or> (\<exists>q. Update q \<in> set es \<and> connected q))
            \<and> \<not> connected (props c) \<and> active (config (props c)) \<and> isOpen (props c)
            \<and> flag_set enableConnectionStatusIndicator (props c) \<longrightarrow>
            overlay_rendered (render c))"
proof -
  from assms obtain c0 where m: "mount g p doc = Inr c0" and r: "run g es c0 = Inr c"
    by (rule lifetime_cases)
  have h: "hadConnection (state c) = (connected p \<or> (\<exists>q. Update q \<in> set es \<and> connected q))"
    using run_fields[OF r mount_inv[OF m]] mount_fields(4)[OF m] by simp
  have a: "\<not> overlay_rendered
             (render ((construct p doc)\<lparr>state := derive_state p (state (construct p doc))\<rparr>))"
    by (simp add: overlay_rendered_iff derive_state_fields construct_def initial_state_def)
  have b: "\<not> overlay_rendered (render (c\<lparr>props := q, state := derive_state q (state c)\<rparr>))"
    if "\<not> hadConnection (state c)" for q
    using that by (simp add: overlay_rendered_iff derive_state_fields)
  have d: "\<not> overlay_rendered (render (c1\<lparr>state := derive_state p (state c1)\<rparr>))"
    if "did_mount p doc = Inr c1" for c1
    using did_mount_fields(4)[OF that] by (simp add: overlay_rendered_iff derive_state_fields)
  from h a b d overlay_rendered_iff[of c] show ?thesis by auto
qed

lemma overlay_lifetime:
  "\<exists>c. lifetime text_of open_connected ''Shop'' [Update open_disconnected] = Inr c
     \<and> props c = open_disconnected"
  by (simp add: eval_defs shop_props_def open_connected_def open_disconnected_def open_props_def)

theorem disconnect_overlay_rendered_witness:
  "\<exists>c. lifetime text_of open_connected ''Shop'' [Update open_disconnected] = Inr c
     \<and> connected open_connected \<and> \<not> connected (props c)
     \<and> overlay_rendered (render c)"
proof -
  from overlay_lifetime obtain c where
    h: "lifetime text_of open_connected ''Shop'' [Update open_disconnected] = Inr c"
    and q: "props c = open_disconnected" by blast
  have k: "connected open_connected" by (simp add: open_connected_def)
  have "\<not> connected (props c) \<and> active (config (props c)) \<and> isOpen (props c)
        \<and> flag_set enableConnectionStatusIndicator (props c)"
    using q
    by (simp add: open_disconnected_def open_props_def shop_props_def example_props_def
          all_settings_def no_settings_def flag_set_def truthy_def)
  with disconnect_overlay_rendered [OF h] k have
    "\<not> connected (props c) \<and> overlay_rendered (render c)" by blast
  with h k show ?thesis by blast
qed

text \<open>
  C7 as stated, without \<^verbatim>\<open>open\<close>, fails: a closed widget that was connected and
  lost the connection has the indicator enabled, \<^verbatim>\<open>connected\<close> false and
  \<open>hadConnection\<close> true, and renders no overlay.
\<close>

theorem disconnect_overlay_counterexample:
  "\<not> isl (lifetime text_of shop_props ''Shop'' example_events)
   \<and> \<not> (overlay_rendered (render (projr (lifetime text_of shop_props ''Shop'' example_events)))
        \<longleftrightarrow>
         (flag_set enableConnectionStatusIndicator
            (props (projr (lifetime text_of shop_props ''Shop'' example_events)))
          \<and> \<not> connected (props (projr (lifetime text_of shop_props ''Shop'' example_events)))
          \<and> hadConnection (state (projr (lifetime text_of shop_props ''Shop'' example_events)))))"
  by (simp add: eval_defs shop_props_def connected_props_def example_events_def
        overlay_rendered_def flag_set_def)

section \<open>The teaser\<close>

text \<open>What decides the teaser: \<^verbatim>\<open>open\<close> is not among it.\<close>

lemma teaser_rendered_iff:
  "teaser_rendered (render c) =
     (active (config (props c)) \<and> settings (config (props c)) \<noteq> None
      \<and> \<not> flag_set disableToggleButton (props c) \<and> lastUnseenMessageText (state c) \<noteq> [])"
proof (cases "settings (config (props c))")
  case None
  then have "render c = Inl TypeError" by (simp add: render_def)
  with None show ?thesis by (simp add: teaser_rendered_def)
next
  case (Some st)
  show ?thesis
  proof (cases "active (config (props c))")
    case False
    with Some have "render c = Inr None" by (simp add: render_inactive)
    with False show ?thesis by (simp add: teaser_rendered_def)
  next
    case True
    show ?thesis
    proof (cases "isOpen (props c)")
      case False
      with Some True show ?thesis
        by (simp add: render_def teaser_rendered_def flag_set_def Let_def)
    next
      case op: True
      from renderRegularLayout_ok[OF Some] obtain l where l: "renderRegularLayout c = Inr l" ..
      with Some True op show ?thesis
        by (simp add: render_def teaser_rendered_def flag_set_def Let_def)
    qed
  qed
qed

text \<open>
  C6 at a concrete life: a widget mounted open, with the preview enabled, receives an
  update with one unseen message while still open. The update succeeds, the widget is
  open, and \<^verbatim>\<open>render\<close> returns the teaser: the source tests
  \<^verbatim>\<open>lastUnseenMessageText\<close> alone, though its comment names the closed widget.
\<close>

theorem teaser_rendered_while_open:
  "\<not> isl (lifetime text_of open_props ''Shop'' [Update open_unseen])
   \<and> isOpen (props (projr (lifetime text_of open_props ''Shop'' [Update open_unseen])))
   \<and> teaser_rendered (render (projr (lifetime text_of open_props ''Shop'' [Update open_unseen])))"
  by (simp add: eval_defs shop_props_def open_props_def open_unseen_def teaser_rendered_def)

section \<open>An absent settings block\<close>

text \<open>
  C1 at props whose config has no settings block: \<^verbatim>\<open>getDerivedStateFromProps\<close>
  guards the block and returns \<^verbatim>\<open>null\<close>, while \<^verbatim>\<open>render\<close>,
  \<^verbatim>\<open>componentDidMount\<close> (so mounting) and an update of a healthy component to such
  props throw.
\<close>

theorem absent_settings_throw:
  "getDerivedStateFromProps (example_props None) initial_state = None
   \<and> render (construct (example_props None) ''Shop'') = Inl TypeError
   \<and> componentDidMount (construct (example_props None) ''Shop'') = Inl TypeError
   \<and> mount text_of (example_props None) ''Shop'' = Inl TypeError
   \<and> \<not> isl (mount text_of shop_props ''Shop'')
   \<and> update text_of (example_props None) (projr (mount text_of shop_props ''Shop'')) = Inl TypeError"
  by (simp add: eval_defs shop_props_def)

text \<open>
  C10 at props with \<^verbatim>\<open>config.active\<close> false and no settings block: \<^verbatim>\<open>render\<close>
  reads \<^verbatim>\<open>config.settings\<close> before it tests \<^verbatim>\<open>config.active\<close> and throws
  instead of returning \<^verbatim>\<open>null\<close>. With a settings block it returns \<^verbatim>\<open>null\<close>
  (\<open>render_inactive\<close>).
\<close>

theorem inactive_render_without_settings:
  "\<not> active (config (inactive_props None))
   \<and> render (construct (inactive_props None) ''Shop'') = Inl TypeError"
  by (simp add: render_def construct_def inactive_props_def example_props_def)

end
